theory Spec2Isabelle
  imports Complex_Main
begin

section \<open>Documents, collections and responses\<close>

text \<open>
  The backend is a set of Express route handlers over Mongoose models. A handler is
  embedded as a function of the authenticated caller (\<open>req.user\<close>, a user document),
  the request (route parameters, query string, body) and the database, returning the
  HTTP response and, for a write, the new database. An ObjectId is the 96-bit number
  its 24 hexadecimal digits denote; a \<open>Date\<close> is a number of milliseconds; a token
  time is a number of seconds.

  The guard middleware (\<open>auth\<close>, \<open>requireProfessional\<close>) is not among the sources:
  a handler starts where \<open>req.user\<close> is attached. Route parameters and query values
  that are ids or numbers are taken after their cast; a value that does not cast makes
  the query throw, which every handler's catch answers with its 500.

  In the sources, the performance router and the users router follow routes/integration.js
  in the same file, models/User.js follows models/Athlete.js, and the measurements router,
  models/Report.js and models/Professional.js are the three unnamed parts. Line numbers
  below are those of the source file that holds the text.
\<close>

type_synonym objectId = nat
type_synonym timestamp = int

text \<open>
  The Number of a path that is written from a validated integer string only (\<open>age\<close>,
  \<open>yearsOfExperience\<close>): a double that holds an integer, or \<open>Infinity\<close>, which the
  cast of a long enough string of digits gives (JSON sends it as \<open>null\<close>). The Numbers
  of the measurement schemas are reals: the handlers are given them after their cast, and
  the rounding of double arithmetic is not modelled.
\<close>

datatype number = Finite int | Infinity

definition negative :: "number \<Rightarrow> bool" where
  "negative x = (case x of Finite i \<Rightarrow> i < 0 | Infinity \<Rightarrow> False)"

text \<open>
  The error bodies the handlers send: \<open>{ errors: errors.array() }\<close>,
  \<open>{ error: { code?, message, details? } }\<close> and \<open>{ message }\<close>. A detail is
  \<open>{ field?, message }\<close>; the message of a Mongoose validator error is kept as the
  validator's kind (\<open>required\<close>, \<open>minlength\<close>, \<open>enum\<close>, \<open>min\<close>).
\<close>

datatype msg = Msg string | ValidatorMsg string

type_synonym detail = "string option \<times> msg"

datatype error_body =
    ErrorsArray "(string \<times> string) list"
  | ErrorObj "string option" string "detail list option"
  | MessageObj string

datatype 'a response = Success nat 'a | Failure nat error_body

text \<open>models/User.js with the discriminators models/Athlete.js and models/Professional.js
  (settings, lastLogin, patients and the timestamps are not read by any handler below).\<close>

record user =
  u_id :: objectId
  u_name :: "string option"
  u_email :: "string option"
  u_password :: "string option"
  u_role :: "string option"
  u_gender :: "string option"
  u_age :: "number option"
  u_country :: "string option"
  u_professionalId :: "objectId option"
  u_sport :: "string option"
  u_position :: "string option"
  u_specialization :: "string option"
  u_licenseNumber :: "string option"
  u_yearsOfExperience :: "number option"
  u_isActive :: bool

text \<open>The paths every measurement and report schema declares: \<open>_id\<close>, \<open>userId\<close>,
  \<open>date\<close>; all but HealthMetrics also declare \<open>professionalId\<close>.\<close>

record doc =
  doc_id :: objectId
  userId :: objectId
  date :: timestamp

record stamped = doc +
  professionalId :: objectId

text \<open>models/AnthropometricMeasurement.js\<close>

record anthropometric = stamped +
  am_weight :: "real option"
  am_height :: "real option"
  am_skinfolds :: "(string \<times> real) list"
  am_perimeters :: "(string \<times> real) list"
  am_bodyFatPercentage :: "real option"
  am_leanMass :: "real option"
  am_notes :: "string option"

text \<open>models/PerformanceMetrics.js\<close>

record performance = stamped +
  pm_vo2max :: "real option"
  pm_power :: "real option"
  pm_speed :: "real option"
  pm_trainingLoad :: "real option"
  pm_sport :: "string option"
  pm_position :: "string option"
  pm_notes :: "string option"

text \<open>models/HealthMetrics.js\<close>

record health = doc +
  hm_sleep :: "(string \<times> real) list"
  hm_stress :: "real option"
  hm_restingHeartRate :: "real option"
  hm_heartRateVariability :: "real option"
  hm_steps :: "real option"
  hm_source :: "string option"
  hm_notes :: "string option"

text \<open>models/Report.js; the content is the snapshot POST /reports assembles.\<close>

record content =
  ct_name :: "string option"
  ct_age :: "number option"
  ct_gender :: "string option"
  ct_sport :: "string option"
  ct_position :: "string option"
  ct_measurements :: "anthropometric list"
  ct_performance :: "performance list"
  ct_health :: "health list"
  ct_start :: "string option"
  ct_end :: "string option"

record report = stamped +
  r_type :: "string option"
  r_format :: "string option"
  r_content :: "content option"
  r_shared :: bool
  r_accessCode :: "string option"

record db =
  users :: "user list"
  anthropometrics :: "anthropometric list"
  performances :: "performance list"
  healths :: "health list"
  reports :: "report list"

text \<open>
  What the handlers take from their libraries and from the process environment:
  validator.js predicates and sanitizers that are not spelled out below, bcrypt, the two
  token secrets, the database's case-insensitive \<open>$regex\<close> match (pattern, then
  subject), and Mongoose's \<open>strictQuery\<close> option (a filter on a path the schema does
  not declare is dropped when it is set, and sent to the database when it is not).
\<close>

record env =
  JWT_SECRET :: string
  REFRESH_TOKEN_SECRET :: string
  isEmail :: "string \<Rightarrow> bool"
  normalizeEmail :: "string \<Rightarrow> string"
  isISO8601 :: "string \<Rightarrow> bool"
  parseDate :: "string \<Rightarrow> timestamp"
  bcrypt_hash :: "string \<Rightarrow> string"
  bcrypt_compare :: "string \<Rightarrow> string \<Rightarrow> bool"
  regex_i :: "string \<Rightarrow> string \<Rightarrow> bool"
  strictQuery :: bool

section \<open>Strings as the validators read them\<close>

text \<open>
  A string is a list of characters with codes below 256, which stand for the JavaScript
  code units of the same number (the Latin-1 range). express-validator turns a missing
  field into the empty string before validating.
\<close>

definition toString :: "string option \<Rightarrow> string" where
  "toString v = (case v of None \<Rightarrow> [] | Some s \<Rightarrow> s)"

definition notEmpty :: "string \<Rightarrow> bool" where
  "notEmpty s = (s \<noteq> [])"

text \<open>validator.js \<open>trim\<close> strips the white space of regular expressions and the
  schema's \<open>trim\<close> setter is \<open>String.prototype.trim\<close>: in this range both strip
  tab, line feed, vertical tab, form feed, carriage return, space and the no-break space.\<close>

definition isSpace :: "char \<Rightarrow> bool" where
  "isSpace c = (c \<in> set [CHR 0x20, CHR 0x09, CHR 0x0A, CHR 0x0B, CHR 0x0C, CHR 0x0D, CHR 0xA0])"

definition trim :: "string \<Rightarrow> string" where
  "trim s = rev (dropWhile isSpace (rev (dropWhile isSpace s)))"

definition isIn :: "string \<Rightarrow> string list \<Rightarrow> bool" where
  "isIn s allowed = (s \<in> set allowed)"

definition isLength_min :: "nat \<Rightarrow> string \<Rightarrow> bool" where
  "isLength_min n s = (n \<le> length s)"

text \<open>\<open>String.prototype.toLowerCase\<close> (the schema's \<open>lowercase\<close> setter): in this
  range the upper-case letters are \<open>A\<close> to \<open>Z\<close> and the codes 0xC0 to 0xDE other
  than 0xD7, each 0x20 below its lower-case letter.\<close>

definition isUpper :: "char \<Rightarrow> bool" where
  "isUpper c =
     (let n = of_char c :: nat
      in (0x41 \<le> n \<and> n \<le> 0x5A) \<or> (0xC0 \<le> n \<and> n \<le> 0xDE \<and> n \<noteq> 0xD7))"

definition toLowerCase :: "string \<Rightarrow> string" where
  "toLowerCase s = map (\<lambda>c. if isUpper c then char_of (of_char c + (0x20 :: nat)) else c) s"

text \<open>\<open>/^[0-9a-fA-F]{24}$/\<close> and validator.js \<open>isMongoId\<close>: 24 hexadecimal digits.\<close>

definition hexDigit :: "char \<Rightarrow> nat option" where
  "hexDigit c =
     map_of (zip ''0123456789abcdef'' [0 ..< 16] @ zip ''ABCDEF'' [10 ..< 16]) c"

definition isMongoId :: "string \<Rightarrow> bool" where
  "isMongoId s = (length s = 24 \<and> list_all (\<lambda>c. hexDigit c \<noteq> None) s)"

text \<open>Mongoose's cast of such a string to an ObjectId.\<close>

definition castObjectId :: "string \<Rightarrow> objectId" where
  "castObjectId s = foldl (\<lambda>n c. 16 * n + (case hexDigit c of None \<Rightarrow> 0 | Some d \<Rightarrow> d)) 0 s"

text \<open>validator.js \<open>isInt({ min: 0 })\<close>: \<open>/^[-+]?[0-9]+$/\<close> (leading zeroes are
  allowed unless the option \<open>allow_leading_zeroes\<close> is false) and \<open>str >= 0\<close>, which
  a string with a minus sign meets only when all its digits are 0.\<close>

definition digit :: "char \<Rightarrow> nat option" where
  "digit c = map_of (zip ''0123456789'' [0 ..< 10]) c"

definition isDigits :: "string \<Rightarrow> bool" where
  "isDigits s = (s \<noteq> [] \<and> list_all (\<lambda>c. digit c \<noteq> None) s)"

definition isInt_min0 :: "string \<Rightarrow> bool" where
  "isInt_min0 s =
     (case s of
        [] \<Rightarrow> False
      | c # cs \<Rightarrow>
          if c = CHR ''-'' then isDigits cs \<and> list_all (\<lambda>c. c = CHR ''0'') cs
          else if c = CHR ''+'' then isDigits cs
          else isDigits s)"

text \<open>
  The number Mongoose casts such a string to, \<open>Number(str)\<close>: the decimal value
  rounded to the nearest double. An integer below \<open>2^53\<close> is a double; a larger one is
  rounded to 53 significant bits, a tie going to the even significand, and the result is
  \<open>Infinity\<close> from \<open>2^1024\<close> on. (A string that passed \<open>isInt({ min: 0 })\<close> with a
  minus sign casts to \<open>-0\<close>, which is read and sent as 0.)
\<close>

function halvings :: "int \<Rightarrow> nat" where
  "halvings n = (if n < 2 ^ 53 then 0 else Suc (halvings (n div 2)))"
  by pat_completeness auto
termination
  by (relation "measure nat") auto

definition toDouble :: "int \<Rightarrow> number" where
  "toDouble n =
     (if n < 2 ^ 53 then Finite n
      else
        let e = halvings n;
            q = n div 2 ^ e;
            r = n mod 2 ^ e;
            m = (if 2 ^ e < 2 * r \<or> (2 * r = 2 ^ e \<and> odd q) then q + 1 else q)
        in if m * 2 ^ e < 2 ^ 1024 then Finite (m * 2 ^ e) else Infinity)"

definition decimal :: "string \<Rightarrow> int" where
  "decimal s = foldl (\<lambda>n c. 10 * n + (case digit c of None \<Rightarrow> 0 | Some d \<Rightarrow> int d)) 0 s"

definition castNumber :: "string \<Rightarrow> number" where
  "castNumber s =
     toDouble (decimal (case s of [] \<Rightarrow> [] | c # cs \<Rightarrow> if c = CHR ''-'' \<or> c = CHR ''+'' then cs else s))"

section \<open>Queries\<close>

text \<open>
  A Mongoose filter is a list of conditions, all of which a document must meet. A
  condition is on a path the model's schema declares, or on a path it does not declare
  (kept with the path's name). Stored documents hold declared paths only (the schemas
  are strict), so a condition on an undeclared path, comparing with a value that is not
  null, holds for no stored document; with \<open>strictQuery\<close> set, Mongoose removes the
  condition from the filter instead.
\<close>

datatype 'd cond = Path "'d \<Rightarrow> bool" | NoPath string

fun holds :: "bool \<Rightarrow> 'd \<Rightarrow> 'd cond \<Rightarrow> bool" where
  "holds sq d (Path p) = p d"
| "holds sq d (NoPath f) = sq"

definition matches :: "env \<Rightarrow> 'd cond list \<Rightarrow> 'd \<Rightarrow> bool" where
  "matches E q d = list_all (holds (strictQuery E) d) q"

definition find_docs :: "env \<Rightarrow> 'd cond list \<Rightarrow> 'd list \<Rightarrow> 'd list" where
  "find_docs E q ds = filter (matches E q) ds"

definition findOne :: "env \<Rightarrow> 'd cond list \<Rightarrow> 'd list \<Rightarrow> 'd option" where
  "findOne E q ds = List.find (matches E q) ds"

definition countDocuments :: "env \<Rightarrow> 'd cond list \<Rightarrow> 'd list \<Rightarrow> nat" where
  "countDocuments E q ds = length (find_docs E q ds)"

definition deleteMany :: "env \<Rightarrow> 'd cond list \<Rightarrow> 'd list \<Rightarrow> 'd list" where
  "deleteMany E q ds = filter (\<lambda>d. \<not> matches E q d) ds"

text \<open>\<open>findOneAndDelete\<close> and \<open>document.deleteOne()\<close> remove one document.\<close>

fun delete_first :: "('d \<Rightarrow> bool) \<Rightarrow> 'd list \<Rightarrow> 'd list" where
  "delete_first p [] = []"
| "delete_first p (d # ds) = (if p d then ds else d # delete_first p ds)"

text \<open>\<open>document.save()\<close> of a document that was read from the collection writes it
  back in its place, found by \<open>_id\<close>.\<close>

fun replace_first :: "('d \<Rightarrow> bool) \<Rightarrow> 'd \<Rightarrow> 'd list \<Rightarrow> 'd list" where
  "replace_first p d' [] = []"
| "replace_first p d' (d # ds) = (if p d then d' # ds else d # replace_first p d' ds)"

section \<open>Tokens (routes/auth.js)\<close>

text \<open>
  jsonwebtoken, symbolically: \<open>jwt.sign(payload, secret, { expiresIn })\<close> at time
  \<open>now\<close> is the payload with the key that signed it, \<open>iat = now\<close> and
  \<open>exp = now + expiresIn\<close>; \<open>jwt.verify\<close> throws unless the signature is by the
  given secret and the clock is before \<open>exp\<close>. \<open>Unsigned\<close> is any other non-empty
  string: one that does not parse, or whose signature is by no key (a token altered
  after signing).
\<close>

record claims =
  c_userId :: objectId
  c_role :: "string option"

datatype token = Signed claims string nat nat | Unsigned

definition jwt_sign :: "claims \<Rightarrow> string \<Rightarrow> nat \<Rightarrow> nat \<Rightarrow> token" where
  "jwt_sign payload secret expiresIn now = Signed payload secret now (now + expiresIn)"

fun jwt_verify :: "token \<Rightarrow> string \<Rightarrow> nat \<Rightarrow> claims option" where
  "jwt_verify (Signed payload k iat ex) secret now =
     (if k = secret \<and> now < ex then Some payload else None)"
| "jwt_verify Unsigned secret now = None"

definition hour :: nat where "hour = 3600"
definition days7 :: nat where "days7 = 604800"

text \<open>The schema's setters on \<open>email\<close> (\<open>trim\<close>, \<open>lowercase\<close>) run on the stored
  value and on a filter's value.\<close>

definition email_setters :: "string \<Rightarrow> string" where
  "email_setters s = toLowerCase (trim s)"

definition by_email :: "string \<Rightarrow> user cond" where
  "by_email e = Path (\<lambda>u. u_email u = Some (email_setters e))"

definition getPublicProfile :: "user \<Rightarrow> user" where
  "getPublicProfile u = u\<lparr>u_password := None\<rparr>"

record login_body =
  lb_email :: "string option"
  lb_password :: "string option"

text \<open>POST /auth/login (auth.js, lines 171 to 222)\<close>

definition login :: "env \<Rightarrow> nat \<Rightarrow> login_body \<Rightarrow> db \<Rightarrow> (user \<times> token \<times> token) response" where
  "login E now b d =
     (let errors =
            (if isEmail E (toString (lb_email b)) then [] else [(''email'', ''Invalid value'')]) @
            (if notEmpty (toString (lb_password b)) then [] else [(''password'', ''Invalid value'')])
      in if errors \<noteq> [] then Failure 400 (ErrorsArray errors)
         else
           let email = normalizeEmail E (toString (lb_email b));
               password = toString (lb_password b)
           in case findOne E [by_email email] (users d) of
                None \<Rightarrow>
                  Failure 401 (ErrorObj (Some ''INVALID_CREDENTIALS'') ''Invalid email or password'' None)
              | Some u \<Rightarrow>
                  if \<not> bcrypt_compare E password (toString (u_password u)) then
                    Failure 401 (ErrorObj (Some ''INVALID_CREDENTIALS'') ''Invalid email or password'' None)
                  else
                    let token = jwt_sign \<lparr>c_userId = u_id u, c_role = None\<rparr> (JWT_SECRET E) hour now;
                        refreshToken =
                          jwt_sign \<lparr>c_userId = u_id u, c_role = None\<rparr> (REFRESH_TOKEN_SECRET E) days7 now
                    in Success 200 (getPublicProfile u, token, refreshToken))"

text \<open>POST /auth/refresh (auth.js, lines 225 to 265). The body's \<open>refreshToken\<close> is
  absent or empty (\<open>None\<close>), or a non-empty token string. The handler writes nothing:
  the database it leaves is the one it was given.\<close>

definition refresh :: "env \<Rightarrow> nat \<Rightarrow> token option \<Rightarrow> db \<Rightarrow> (token \<times> token) response \<times> db" where
  "refresh E now body_refreshToken d =
     (case body_refreshToken of
        None \<Rightarrow> (Failure 400 (ErrorsArray [(''refreshToken'', ''Invalid value'')]), d)
      | Some refreshToken \<Rightarrow>
          (case jwt_verify refreshToken (REFRESH_TOKEN_SECRET E) now of
             None \<Rightarrow> (Failure 401 (ErrorObj (Some ''INVALID_TOKEN'') ''Invalid refresh token'' None), d)
           | Some decoded \<Rightarrow>
               (case findOne E [Path (\<lambda>u. u_id u = c_userId decoded)] (users d) of
                  None \<Rightarrow>
                    (Failure 401 (ErrorObj (Some ''INVALID_TOKEN'') ''Invalid refresh token'' None), d)
                | Some u \<Rightarrow>
                    let token = jwt_sign \<lparr>c_userId = u_id u, c_role = None\<rparr> (JWT_SECRET E) hour now;
                        newRefreshToken =
                          jwt_sign \<lparr>c_userId = u_id u, c_role = None\<rparr> (REFRESH_TOKEN_SECRET E) days7 now
                    in (Success 200 (token, newRefreshToken), d))))"

section \<open>The user schema and its save (models/User.js, Athlete.js, Professional.js)\<close>

text \<open>
  Mongoose validates a document before the schema's own \<open>pre('save')\<close> hooks run, and
  reports, for each path, the first validator that fails, with the validator's kind.
  The \<open>required\<close> validator of a string path rejects a missing value and the empty
  string; \<open>minlength\<close>, \<open>enum\<close> and \<open>min\<close> accept a missing value. The discriminator
  key is \<open>role\<close>: a document whose role is \<open>athlete\<close> or \<open>professional\<close> is
  validated with that discriminator's paths as well.
\<close>

datatype save_error = ValidationError "(string \<times> string) list" | MongoError

definition required :: "string \<Rightarrow> 'a option \<Rightarrow> 'a \<Rightarrow> bool \<Rightarrow> (string \<times> string) list \<Rightarrow> (string \<times> string) list" where
  "required path v blank needed later =
     (if needed \<and> (v = None \<or> v = Some blank) then [(path, ''required'')] else later)"

definition validate_user :: "user \<Rightarrow> (string \<times> string) list" where
  "validate_user u =
     (let athlete = (u_role u = Some ''athlete'');
          professional = (u_role u = Some ''professional'')
      in required ''name'' (u_name u) [] True [] @
         required ''email'' (u_email u) [] True [] @
         required ''password'' (u_password u) [] True
           (if length (toString (u_password u)) < 8 then [(''password'', ''minlength'')] else []) @
         required ''role'' (u_role u) [] True
           (if isIn (toString (u_role u)) [''athlete'', ''professional''] then [] else [(''role'', ''enum'')]) @
         required ''gender'' (u_gender u) [] athlete
           (if u_gender u = None \<or> isIn (toString (u_gender u)) [''male'', ''female'', ''other'']
            then [] else [(''gender'', ''enum'')]) @
         (if athlete \<and> u_age u = None then [(''age'', ''required'')]
          else case u_age u of None \<Rightarrow> [] | Some a \<Rightarrow> if negative a then [(''age'', ''min'')] else []) @
         required ''country'' (u_country u) [] athlete [] @
         (if athlete \<and> u_professionalId u = None then [(''professionalId'', ''required'')] else []) @
         required ''specialization'' (u_specialization u) [] professional [] @
         required ''licenseNumber'' (u_licenseNumber u) [] professional [] @
         (if professional \<and> u_yearsOfExperience u = None then [(''yearsOfExperience'', ''required'')]
          else case u_yearsOfExperience u of
                 None \<Rightarrow> [] | Some y \<Rightarrow> if negative y then [(''yearsOfExperience'', ''min'')] else []))"

text \<open>\<open>user.save()\<close> of a new document: validation, then the hook that hashes the
  password, then the insert, which the unique index on \<open>email\<close> can refuse.\<close>

definition save_new_user :: "env \<Rightarrow> user \<Rightarrow> db \<Rightarrow> save_error + (user \<times> db)" where
  "save_new_user E u d =
     (case validate_user u of
        e # es \<Rightarrow> Inl (ValidationError (e # es))
      | [] \<Rightarrow>
          let saved = u\<lparr>u_password := map_option (bcrypt_hash E) (u_password u)\<rparr>
          in if list_ex (\<lambda>v. u_email v = u_email saved) (users d) then Inl MongoError
             else Inr (saved, d\<lparr>users := users d @ [saved]\<rparr>))"

section \<open>Registration (routes/auth.js, lines 11 to 168)\<close>

record register_body =
  rb_name :: "string option"
  rb_email :: "string option"
  rb_password :: "string option"
  rb_role :: "string option"
  rb_gender :: "string option"
  rb_age :: "string option"
  rb_country :: "string option"
  rb_sport :: "string option"
  rb_position :: "string option"
  rb_professionalId :: "string option"
  rb_specialization :: "string option"
  rb_licenseNumber :: "string option"
  rb_yearsOfExperience :: "string option"



text \<open>\<open>new Athlete({...})\<close> and \<open>new Professional({...})\<close> with the schema's setters
  and casts; the route's \<open>trim\<close> sanitizers have already rewritten the body.\<close>

definition new_Athlete :: "objectId \<Rightarrow> register_body \<Rightarrow> user" where
  "new_Athlete new_id b =
     \<lparr>u_id = new_id,
      u_name = Some (trim (toString (rb_name b))),
      u_email = Some (email_setters (toString (rb_email b))),
      u_password = rb_password b,
      u_role = rb_role b,
      u_gender = rb_gender b,
      u_age = Some (castNumber (toString (rb_age b))),
      u_country = Some (trim (toString (rb_country b))),
      u_professionalId = Some (castObjectId (trim (toString (rb_professionalId b)))),
      u_sport = map_option trim (rb_sport b),
      u_position = map_option trim (rb_position b),
      u_specialization = None,
      u_licenseNumber = None,
      u_yearsOfExperience = None,
      u_isActive = True\<rparr>"




section \<open>Patients (the users router: POST /users/patients)\<close>

record patient_body =
  pb_name :: "string option"
  pb_email :: "string option"
  pb_password :: "string option"
  pb_gender :: "string option"
  pb_age :: "string option"
  pb_country :: "string option"
  pb_sport :: "string option"
  pb_position :: "string option"

definition patient_validators :: "env \<Rightarrow> patient_body \<Rightarrow> (string \<times> string) list" where
  "patient_validators E b =
     (if notEmpty (trim (toString (pb_name b))) then [] else [(''name'', ''Name is required'')]) @
     (if isEmail E (toString (pb_email b)) then [] else [(''email'', ''Valid email is required'')]) @
     (if isLength_min 6 (toString (pb_password b)) then []
      else [(''password'', ''Password must be at least 6 characters'')]) @
     (if isIn (toString (pb_gender b)) [''male'', ''female'', ''other''] then []
      else [(''gender'', ''Valid gender is required'')]) @
     (if isInt_min0 (toString (pb_age b)) then [] else [(''age'', ''Age must be a positive number'')]) @
     (if notEmpty (trim (toString (pb_country b))) then [] else [(''country'', ''Country is required'')])"

definition new_patient :: "user \<Rightarrow> objectId \<Rightarrow> patient_body \<Rightarrow> user" where
  "new_patient caller new_id b =
     \<lparr>u_id = new_id,
      u_name = Some (trim (toString (pb_name b))),
      u_email = Some (email_setters (toString (pb_email b))),
      u_password = pb_password b,
      u_role = Some ''athlete'',
      u_gender = pb_gender b,
      u_age = Some (castNumber (toString (pb_age b))),
      u_country = Some (trim (toString (pb_country b))),
      u_professionalId = Some (u_id caller),
      u_sport = map_option trim (pb_sport b),
      u_position = map_option trim (pb_position b),
      u_specialization = None,
      u_licenseNumber = None,
      u_yearsOfExperience = None,
      u_isActive = True\<rparr>"

text \<open>POST /users/patients (routes/integration.js, lines 514 to 580)\<close>

definition create_patient :: "env \<Rightarrow> user \<Rightarrow> objectId \<Rightarrow> patient_body \<Rightarrow> db \<Rightarrow> user response \<times> db" where
  "create_patient E caller new_id b d =
     (let errors = patient_validators E b
      in if errors \<noteq> [] then
           (Failure 400 (ErrorObj (Some ''VALIDATION_ERROR'') ''Validation failed''
              (Some (map (\<lambda>(param, m). (Some param, Msg m)) errors))), d)
         else
           case findOne E [by_email (toString (pb_email b))] (users d) of
             Some existingUser \<Rightarrow>
               (Failure 400 (ErrorObj (Some ''EMAIL_IN_USE'') ''Email already in use'' None), d)
           | None \<Rightarrow>
               (case save_new_user E (new_patient caller new_id b) d of
                  Inl error \<Rightarrow>
                    (Failure 500 (ErrorObj (Some ''INTERNAL_SERVER_ERROR'') ''Error creating patient'' None), d)
                | Inr (patient, d') \<Rightarrow> (Success 201 (getPublicProfile patient), d')))"

section \<open>Listing: filters, sort, skip and limit\<close>

text \<open>JavaScript truthiness of an optional string: \<open>undefined\<close> and \<open>''\<close> are falsy.\<close>

definition truthy :: "string option \<Rightarrow> bool" where
  "truthy v = (v \<noteq> None \<and> v \<noteq> Some [])"

text \<open>\<open>if (startDate || endDate) { query.date = {}; if (startDate) query.date.$gte = new
  Date(startDate); if (endDate) query.date.$lte = new Date(endDate); }\<close>\<close>

definition date_range :: "env \<Rightarrow> string option \<Rightarrow> string option \<Rightarrow> 'a doc_scheme cond list" where
  "date_range E startDate endDate =
     (if truthy startDate then [Path (\<lambda>m. parseDate E (toString startDate) \<le> date m)] else []) @
     (if truthy endDate then [Path (\<lambda>m. date m \<le> parseDate E (toString endDate))] else [])"

text \<open>
  \<open>page\<close> and \<open>limit\<close> are the numbers the query string denotes (1 and 10 when
  absent). \<open>skip = (page - 1) * limit\<close>; the database refuses a negative skip (the
  handler's catch answers 500) and reads \<open>limit(0)\<close> as no limit.
  \<open>pages = Math.ceil(total / limit)\<close> is not a number when \<open>limit\<close> is 0.
\<close>

record 'd listing =
  l_data :: "'d list"
  l_total :: nat
  l_page :: nat
  l_limit :: nat
  l_pages :: "nat option"

definition skip_limit :: "nat \<Rightarrow> nat \<Rightarrow> 'd list \<Rightarrow> 'd list option" where
  "skip_limit page limit ds =
     (if page = 0 \<and> limit \<noteq> 0 then None
      else Some (if limit = 0 then drop ((page - 1) * limit) ds
                 else take limit (drop ((page - 1) * limit) ds)))"

definition pagination :: "'d list \<Rightarrow> nat \<Rightarrow> nat \<Rightarrow> nat \<Rightarrow> 'd listing" where
  "pagination ds n page limit =
     \<lparr>l_data = ds, l_total = n, l_page = page, l_limit = limit,
      l_pages = (if limit = 0 then None else Some ((n + limit - 1) div limit))\<rparr>"

text \<open>\<open>Model.find(query).sort({ date: -1 }).skip(skip).limit(limit)\<close> with
  \<open>Model.countDocuments(query)\<close>; documents of equal date keep their stored order.\<close>

definition page_of :: "env \<Rightarrow> 'd cond list \<Rightarrow> nat \<Rightarrow> nat \<Rightarrow> 'd list \<Rightarrow> 'd list \<Rightarrow> 'd listing option" where
  "page_of E q page limit ds found =
     map_option (\<lambda>shown. pagination shown (countDocuments E q ds) page limit)
       (skip_limit page limit found)"

definition find_sorted_page :: "env \<Rightarrow> 'a doc_scheme cond list \<Rightarrow> nat \<Rightarrow> nat \<Rightarrow> 'a doc_scheme list
    \<Rightarrow> 'a doc_scheme listing option" where
  "find_sorted_page E q page limit ds =
     page_of E q page limit ds (sort_key (\<lambda>m. - date m) (find_docs E q ds))"

definition with_default :: "'a \<Rightarrow> 'a option \<Rightarrow> 'a" where
  "with_default a v = (case v of None \<Rightarrow> a | Some x \<Rightarrow> x)"

definition is_professional :: "user \<Rightarrow> bool" where
  "is_professional caller = (u_role caller = Some ''professional'')"

definition internal_error :: "string \<Rightarrow> 'a response" where
  "internal_error m = Failure 500 (ErrorObj (Some ''INTERNAL_SERVER_ERROR'') m None)"

definition not_found :: "string \<Rightarrow> 'a response" where
  "not_found m = Failure 404 (ErrorObj (Some ''NOT_FOUND'') m None)"

section \<open>Anthropometric measurements (the measurements router and its model)\<close>

text \<open>
  The schema's \<open>pre('save')\<close> hook. \<open>isModified\<close> of the two paths is passed in.
  \<open>this.bodyFatPercentage && this.weight\<close> is JavaScript truthiness: a missing number
  and the number 0 are both falsy. Numbers are reals here: the rounding of the double
  arithmetic is not modelled.
\<close>

definition truthy_number :: "real option \<Rightarrow> bool" where
  "truthy_number v = (case v of None \<Rightarrow> False | Some x \<Rightarrow> x \<noteq> 0)"

definition leanMass_hook :: "bool \<Rightarrow> bool \<Rightarrow> anthropometric \<Rightarrow> anthropometric" where
  "leanMass_hook modified_weight modified_bodyFatPercentage m =
     (if modified_weight \<or> modified_bodyFatPercentage then
        (if truthy_number (am_bodyFatPercentage m) \<and> truthy_number (am_weight m) then
           m\<lparr>am_leanMass :=
               Some (with_default 0 (am_weight m) * (1 - with_default 0 (am_bodyFatPercentage m) / 100))\<rparr>
         else m)
      else m)"

text \<open>The schema's validators: \<open>min: 0\<close> on every number, \<open>max: 100\<close> on
  \<open>bodyFatPercentage\<close>, \<open>required\<close> on \<open>weight\<close> and \<open>height\<close>.\<close>

definition min0 :: "string \<Rightarrow> real option \<Rightarrow> (string \<times> string) list" where
  "min0 path v = (case v of None \<Rightarrow> [] | Some x \<Rightarrow> if x < 0 then [(path, ''min'')] else [])"

definition validate_anthropometric :: "anthropometric \<Rightarrow> (string \<times> string) list" where
  "validate_anthropometric m =
     (if am_weight m = None then [(''weight'', ''required'')] else min0 ''weight'' (am_weight m)) @
     (if am_height m = None then [(''height'', ''required'')] else min0 ''height'' (am_height m)) @
     concat (map (\<lambda>(site, x). min0 (''skinfolds.'' @ site) (Some x)) (am_skinfolds m)) @
     concat (map (\<lambda>(site, x). min0 (''perimeters.'' @ site) (Some x)) (am_perimeters m)) @
     (case am_bodyFatPercentage m of
        None \<Rightarrow> []
      | Some x \<Rightarrow> if x < 0 then [(''bodyFatPercentage'', ''min'')]
                  else if 100 < x then [(''bodyFatPercentage'', ''max'')] else []) @
     min0 ''leanMass'' (am_leanMass m)"

text \<open>\<open>measurement.save()\<close>: validation, the hook, then the write by \<open>_id\<close>. A path is
  modified when its value differs from the stored one.\<close>

definition save_anthropometric :: "anthropometric \<Rightarrow> anthropometric \<Rightarrow> db \<Rightarrow> save_error + (anthropometric \<times> db)" where
  "save_anthropometric stored m d =
     (case validate_anthropometric m of
        e # es \<Rightarrow> Inl (ValidationError (e # es))
      | [] \<Rightarrow>
          let saved = leanMass_hook (am_weight m \<noteq> am_weight stored)
                        (am_bodyFatPercentage m \<noteq> am_bodyFatPercentage stored) m
          in Inr (saved,
                  d\<lparr>anthropometrics :=
                      replace_first (\<lambda>x. doc_id x = doc_id stored) saved (anthropometrics d)\<rparr>))"

text \<open>GET /anthropometric (lines 74 to 122): the athlete branch, and the professional's
  optional \<open>athleteId\<close>, filter on \<open>athleteId\<close>, a path the schema does not declare.\<close>

definition anthropometric_list :: "env \<Rightarrow> user \<Rightarrow> string option \<Rightarrow> string option \<Rightarrow> string option
    \<Rightarrow> nat option \<Rightarrow> nat option \<Rightarrow> db \<Rightarrow> anthropometric listing response" where
  "anthropometric_list E caller athleteId startDate endDate page limit d =
     (let query =
            (if is_professional caller then
               Path (\<lambda>m. professionalId m = u_id caller) #
               (if truthy athleteId then [NoPath ''athleteId''] else [])
             else [NoPath ''athleteId'']) @
            date_range E startDate endDate
      in case find_sorted_page E query (with_default 1 page) (with_default 10 limit) (anthropometrics d) of
           None \<Rightarrow> internal_error ''Error fetching measurements''
         | Some found \<Rightarrow> Success 200 found)"

text \<open>GET /anthropometric/:id (lines 125 to 155)\<close>

definition anthropometric_get :: "env \<Rightarrow> user \<Rightarrow> objectId \<Rightarrow> db \<Rightarrow> anthropometric response" where
  "anthropometric_get E caller i d =
     (let query =
            Path (\<lambda>m. doc_id m = i) #
            (if is_professional caller then [Path (\<lambda>m. professionalId m = u_id caller)]
             else [NoPath ''athleteId''])
      in case findOne E query (anthropometrics d) of
           None \<Rightarrow> not_found ''Measurement not found''
         | Some measurement \<Rightarrow> Success 200 measurement)"

text \<open>PUT /anthropometric/:id (lines 158 to 217). The body is the list of its keys with
  their values, for the paths of the schema; each key is assigned to the document.\<close>

datatype anthropometric_key =
    Set_userId objectId
  | Set_professionalId objectId
  | Set_date timestamp
  | Set_weight real
  | Set_height real
  | Set_skinfolds "(string \<times> real) list"
  | Set_perimeters "(string \<times> real) list"
  | Set_bodyFatPercentage real
  | Set_leanMass real
  | Set_notes string

fun anthropometric_validator :: "anthropometric_key \<Rightarrow> (string \<times> string) list" where
  "anthropometric_validator (Set_weight x) = (if 0 \<le> x then [] else [(''weight'', ''Invalid value'')])"
| "anthropometric_validator (Set_height x) = (if 0 \<le> x then [] else [(''height'', ''Invalid value'')])"
| "anthropometric_validator (Set_skinfolds sf) =
     map (\<lambda>(site, x). (''skinfolds.'' @ site, ''Invalid value'')) (filter (\<lambda>(site, x). x < 0) sf)"
| "anthropometric_validator (Set_perimeters pe) =
     map (\<lambda>(site, x). (''perimeters.'' @ site, ''Invalid value'')) (filter (\<lambda>(site, x). x < 0) pe)"
| "anthropometric_validator (Set_bodyFatPercentage x) =
     (if 0 \<le> x \<and> x \<le> 100 then [] else [(''bodyFatPercentage'', ''Invalid value'')])"
| "anthropometric_validator k = []"

fun anthropometric_assign :: "anthropometric \<Rightarrow> anthropometric_key \<Rightarrow> anthropometric" where
  "anthropometric_assign m (Set_userId x) = m\<lparr>userId := x\<rparr>"
| "anthropometric_assign m (Set_professionalId x) = m\<lparr>professionalId := x\<rparr>"
| "anthropometric_assign m (Set_date x) = m\<lparr>date := x\<rparr>"
| "anthropometric_assign m (Set_weight x) = m\<lparr>am_weight := Some x\<rparr>"
| "anthropometric_assign m (Set_height x) = m\<lparr>am_height := Some x\<rparr>"
| "anthropometric_assign m (Set_skinfolds x) = m\<lparr>am_skinfolds := x\<rparr>"
| "anthropometric_assign m (Set_perimeters x) = m\<lparr>am_perimeters := x\<rparr>"
| "anthropometric_assign m (Set_bodyFatPercentage x) = m\<lparr>am_bodyFatPercentage := Some x\<rparr>"
| "anthropometric_assign m (Set_leanMass x) = m\<lparr>am_leanMass := Some x\<rparr>"
| "anthropometric_assign m (Set_notes x) = m\<lparr>am_notes := Some (trim x)\<rparr>"

definition anthropometric_update :: "env \<Rightarrow> user \<Rightarrow> objectId \<Rightarrow> anthropometric_key list \<Rightarrow> db
    \<Rightarrow> anthropometric response \<times> db" where
  "anthropometric_update E caller i body d =
     (let errors = concat (map anthropometric_validator body)
      in if errors \<noteq> [] then (Failure 400 (ErrorsArray errors), d)
         else
           case findOne E [Path (\<lambda>m. doc_id m = i), Path (\<lambda>m. professionalId m = u_id caller)]
                  (anthropometrics d) of
             None \<Rightarrow> (not_found ''Measurement not found'', d)
           | Some measurement \<Rightarrow>
               (case save_anthropometric measurement (foldl anthropometric_assign measurement body) d of
                  Inl error \<Rightarrow> (internal_error ''Error updating measurement'', d)
                | Inr (saved, d') \<Rightarrow> (Success 200 saved, d')))"

text \<open>DELETE /anthropometric/:id (lines 220 to 245)\<close>

definition anthropometric_delete :: "env \<Rightarrow> user \<Rightarrow> objectId \<Rightarrow> db \<Rightarrow> anthropometric response \<times> db" where
  "anthropometric_delete E caller i d =
     (let query = [Path (\<lambda>m. doc_id m = i), Path (\<lambda>m. professionalId m = u_id caller)]
      in case findOne E query (anthropometrics d) of
           None \<Rightarrow> (not_found ''Measurement not found'', d)
         | Some measurement \<Rightarrow>
             (Success 200 measurement,
              d\<lparr>anthropometrics := delete_first (matches E query) (anthropometrics d)\<rparr>))"

section \<open>Performance records (the performance router and models/PerformanceMetrics.js)\<close>

text \<open>GET /performance (routes/integration.js, lines 200 to 252). \<open>userId\<close> is the ObjectId
  the query string casts to.\<close>

definition performance_list :: "env \<Rightarrow> user \<Rightarrow> objectId option \<Rightarrow> string option \<Rightarrow> string option
    \<Rightarrow> string option \<Rightarrow> nat option \<Rightarrow> nat option \<Rightarrow> db \<Rightarrow> performance listing response" where
  "performance_list E caller user_id startDate endDate sport page limit d =
     (let query =
            (if is_professional caller then
               Path (\<lambda>m. professionalId m = u_id caller) #
               (case user_id of None \<Rightarrow> [] | Some x \<Rightarrow> [Path (\<lambda>m. userId m = x)])
             else [Path (\<lambda>m. userId m = u_id caller)]) @
            date_range E startDate endDate @
            (if truthy sport
             then [Path (\<lambda>m. case pm_sport m of None \<Rightarrow> False
                                | Some s \<Rightarrow> regex_i E (toString sport) s)]
             else [])
      in case find_sorted_page E query (with_default 1 page) (with_default 10 limit) (performances d) of
           None \<Rightarrow> internal_error ''Error fetching performance records''
         | Some found \<Rightarrow> Success 200 found)"

text \<open>GET /performance/:id\<close>

definition performance_get :: "env \<Rightarrow> user \<Rightarrow> objectId \<Rightarrow> db \<Rightarrow> performance response" where
  "performance_get E caller i d =
     (let query =
            Path (\<lambda>m. doc_id m = i) #
            (if is_professional caller then [Path (\<lambda>m. professionalId m = u_id caller)]
             else [Path (\<lambda>m. userId m = u_id caller)])
      in case findOne E query (performances d) of
           None \<Rightarrow> not_found ''Performance record not found''
         | Some record \<Rightarrow> Success 200 record)"

text \<open>PUT /performance/:id\<close>

datatype performance_key =
    Put_userId objectId
  | Put_professionalId objectId
  | Put_date timestamp
  | Put_vo2max real
  | Put_power real
  | Put_speed real
  | Put_trainingLoad real
  | Put_sport string
  | Put_position string
  | Put_notes string

fun performance_validator :: "performance_key \<Rightarrow> (string \<times> string) list" where
  "performance_validator (Put_vo2max x) = (if 0 \<le> x then [] else [(''vo2max'', ''Invalid value'')])"
| "performance_validator (Put_power x) = (if 0 \<le> x then [] else [(''power'', ''Invalid value'')])"
| "performance_validator (Put_speed x) = (if 0 \<le> x then [] else [(''speed'', ''Invalid value'')])"
| "performance_validator (Put_trainingLoad x) =
     (if 0 \<le> x then [] else [(''trainingLoad'', ''Invalid value'')])"
| "performance_validator k = []"

fun performance_assign :: "performance \<Rightarrow> performance_key \<Rightarrow> performance" where
  "performance_assign m (Put_userId x) = m\<lparr>userId := x\<rparr>"
| "performance_assign m (Put_professionalId x) = m\<lparr>professionalId := x\<rparr>"
| "performance_assign m (Put_date x) = m\<lparr>date := x\<rparr>"
| "performance_assign m (Put_vo2max x) = m\<lparr>pm_vo2max := Some x\<rparr>"
| "performance_assign m (Put_power x) = m\<lparr>pm_power := Some x\<rparr>"
| "performance_assign m (Put_speed x) = m\<lparr>pm_speed := Some x\<rparr>"
| "performance_assign m (Put_trainingLoad x) = m\<lparr>pm_trainingLoad := Some x\<rparr>"
| "performance_assign m (Put_sport x) = m\<lparr>pm_sport := Some (trim x)\<rparr>"
| "performance_assign m (Put_position x) = m\<lparr>pm_position := Some (trim x)\<rparr>"
| "performance_assign m (Put_notes x) = m\<lparr>pm_notes := Some (trim x)\<rparr>"

definition validate_performance :: "performance \<Rightarrow> (string \<times> string) list" where
  "validate_performance m =
     min0 ''vo2max'' (pm_vo2max m) @ min0 ''power'' (pm_power m) @
     min0 ''speed'' (pm_speed m) @ min0 ''trainingLoad'' (pm_trainingLoad m)"

definition save_performance :: "performance \<Rightarrow> performance \<Rightarrow> db \<Rightarrow> save_error + (performance \<times> db)" where
  "save_performance stored m d =
     (case validate_performance m of
        e # es \<Rightarrow> Inl (ValidationError (e # es))
      | [] \<Rightarrow>
          Inr (m, d\<lparr>performances := replace_first (\<lambda>x. doc_id x = doc_id stored) m (performances d)\<rparr>))"

definition performance_update :: "env \<Rightarrow> user \<Rightarrow> objectId \<Rightarrow> performance_key list \<Rightarrow> db
    \<Rightarrow> performance response \<times> db" where
  "performance_update E caller i body d =
     (let errors = concat (map performance_validator body)
      in if errors \<noteq> [] then (Failure 400 (ErrorsArray errors), d)
         else
           case findOne E [Path (\<lambda>m. doc_id m = i), Path (\<lambda>m. professionalId m = u_id caller)]
                  (performances d) of
             None \<Rightarrow> (not_found ''Performance record not found'', d)
           | Some record \<Rightarrow>
               (case save_performance record (foldl performance_assign record body) d of
                  Inl error \<Rightarrow> (internal_error ''Error updating performance record'', d)
                | Inr (saved, d') \<Rightarrow> (Success 200 saved, d')))"

text \<open>DELETE /performance/:id\<close>

definition performance_delete :: "env \<Rightarrow> user \<Rightarrow> objectId \<Rightarrow> db \<Rightarrow> performance response \<times> db" where
  "performance_delete E caller i d =
     (let query = [Path (\<lambda>m. doc_id m = i), Path (\<lambda>m. professionalId m = u_id caller)]
      in case findOne E query (performances d) of
           None \<Rightarrow> (not_found ''Performance record not found'', d)
         | Some record \<Rightarrow>
             (Success 200 record,
              d\<lparr>performances := delete_first (matches E query) (performances d)\<rparr>))"

section \<open>Reports (routes/reports.js and models/Report.js)\<close>

text \<open>
  The schema's \<open>pre('save')\<close> hook. The two strings are what
  \<open>Math.random().toString(36)\<close> returns for the hook's two draws; \<open>substring(2, 15)\<close>
  keeps at most 13 characters after the first two. \<open>!this.accessCode\<close> is truthiness:
  a missing code and the empty string both count as no code.
\<close>

definition accessCode_of :: "string \<times> string \<Rightarrow> string" where
  "accessCode_of random = take 13 (drop 2 (fst random)) @ take 13 (drop 2 (snd random))"

definition accessCode_hook :: "string \<times> string \<Rightarrow> report \<Rightarrow> report" where
  "accessCode_hook random r =
     (if r_shared r \<and> \<not> truthy (r_accessCode r)
      then r\<lparr>r_accessCode := Some (accessCode_of random)\<rparr> else r)"

text \<open>The index on \<open>accessCode\<close> is unique and sparse: a write is refused when another
  report holds the same code.\<close>

definition accessCode_taken :: "report \<Rightarrow> report list \<Rightarrow> bool" where
  "accessCode_taken r rs =
     (r_accessCode r \<noteq> None \<and>
      list_ex (\<lambda>x. doc_id x \<noteq> doc_id r \<and> r_accessCode x = r_accessCode r) rs)"

definition report_hooks :: "string \<times> string \<Rightarrow> report \<Rightarrow> db \<Rightarrow> save_error + report" where
  "report_hooks random r d =
     (let saved = accessCode_hook random r
      in if accessCode_taken saved (reports d) then Inl MongoError else Inr saved)"

text \<open>\<open>report.save()\<close> of a report read from the collection, and of a new one.\<close>

definition save_report :: "string \<times> string \<Rightarrow> report \<Rightarrow> db \<Rightarrow> save_error + (report \<times> db)" where
  "save_report random r d =
     (case report_hooks random r d of
        Inl error \<Rightarrow> Inl error
      | Inr saved \<Rightarrow>
          Inr (saved, d\<lparr>reports := replace_first (\<lambda>x. doc_id x = doc_id saved) saved (reports d)\<rparr>))"

definition save_new_report :: "string \<times> string \<Rightarrow> report \<Rightarrow> db \<Rightarrow> save_error + (report \<times> db)" where
  "save_new_report random r d =
     (case report_hooks random r d of
        Inl error \<Rightarrow> Inl error
      | Inr saved \<Rightarrow> Inr (saved, d\<lparr>reports := reports d @ [saved]\<rparr>))"

record report_body =
  pr_userId :: "string option"
  pr_type :: "string option"
  pr_format :: "string option"
  pr_startDate :: "string option"
  pr_endDate :: "string option"
  pr_metrics :: "string list option"
  pr_shared :: "bool option"

text \<open>The validators of POST /reports; \<open>metrics\<close> and \<open>shared\<close> are an array and a
  boolean by their types here, so \<open>isArray\<close> and \<open>isBoolean\<close> accept them.\<close>

definition optional_ISO8601 :: "env \<Rightarrow> string \<Rightarrow> string option \<Rightarrow> (string \<times> string) list" where
  "optional_ISO8601 E param v =
     (case v of None \<Rightarrow> [] | Some s \<Rightarrow> if isISO8601 E s then [] else [(param, ''Invalid value'')])"

definition report_validators :: "env \<Rightarrow> report_body \<Rightarrow> (string \<times> string) list" where
  "report_validators E b =
     (if isMongoId (toString (pr_userId b)) then [] else [(''userId'', ''Invalid value'')]) @
     (if isIn (toString (pr_type b)) [''individual'', ''group''] then [] else [(''type'', ''Invalid value'')]) @
     (if isIn (toString (pr_format b)) [''pdf'', ''excel''] then [] else [(''format'', ''Invalid value'')]) @
     optional_ISO8601 E ''startDate'' (pr_startDate b) @
     optional_ISO8601 E ''endDate'' (pr_endDate b)"

text \<open>The data query of POST /reports: \<open>{ userId, date: {} }\<close> with \<open>$gte\<close> and
  \<open>$lte\<close> added when the body has the dates. With neither, the condition on \<open>date\<close>
  is the empty object, which does not cast to a date: the three finds throw, and the
  handler's catch answers 500.\<close>

definition report_data_dated :: "report_body \<Rightarrow> bool" where
  "report_data_dated b = (truthy (pr_startDate b) \<or> truthy (pr_endDate b))"

definition report_data_query :: "env \<Rightarrow> report_body \<Rightarrow> 'a doc_scheme cond list" where
  "report_data_query E b =
     Path (\<lambda>m. userId m = castObjectId (toString (pr_userId b))) #
     date_range E (pr_startDate b) (pr_endDate b)"

text \<open>POST /reports (lines 12 to 101). The ownership lookup asks for \<open>role: 'user'\<close>.\<close>

definition report_create :: "env \<Rightarrow> string \<times> string \<Rightarrow> timestamp \<Rightarrow> user \<Rightarrow> objectId \<Rightarrow> report_body \<Rightarrow> db
    \<Rightarrow> report response \<times> db" where
  "report_create E random today caller new_id b d =
     (let errors = report_validators E b
      in if errors \<noteq> [] then (Failure 400 (ErrorsArray errors), d)
         else
           case findOne E
                  [Path (\<lambda>u. u_id u = castObjectId (toString (pr_userId b))),
                   Path (\<lambda>u. u_role u = Some ''user''),
                   Path (\<lambda>u. u_professionalId u = Some (u_id caller))] (users d) of
             None \<Rightarrow> (not_found ''User not found or not assigned to you'', d)
           | Some u \<Rightarrow>
               if \<not> report_data_dated b then (internal_error ''Error generating report'', d)
               else
                 let content =
                       \<lparr>ct_name = u_name u, ct_age = u_age u, ct_gender = u_gender u,
                        ct_sport = u_sport u, ct_position = u_position u,
                        ct_measurements = find_docs E (report_data_query E b) (anthropometrics d),
                        ct_performance = find_docs E (report_data_query E b) (performances d),
                        ct_health = find_docs E (report_data_query E b) (healths d),
                        ct_start = pr_startDate b, ct_end = pr_endDate b\<rparr>;
                     report =
                       \<lparr>doc_id = new_id, userId = castObjectId (toString (pr_userId b)), date = today,
                        professionalId = u_id caller, r_type = pr_type b, r_format = pr_format b,
                        r_content = Some content, r_shared = with_default False (pr_shared b),
                        r_accessCode = None\<rparr>
                 in (case save_new_report random report d of
                       Inl error \<Rightarrow> (internal_error ''Error generating report'', d)
                     | Inr (saved, d') \<Rightarrow> (Success 201 saved, d')))"

text \<open>GET /reports (lines 104 to 157)\<close>

definition report_list :: "env \<Rightarrow> user \<Rightarrow> string option \<Rightarrow> string option \<Rightarrow> string option \<Rightarrow> string option
    \<Rightarrow> nat option \<Rightarrow> nat option \<Rightarrow> db \<Rightarrow> report listing response" where
  "report_list E caller kind format startDate endDate page limit d =
     (let query =
            (if is_professional caller then [Path (\<lambda>r. professionalId r = u_id caller)]
             else [Path (\<lambda>r. userId r = u_id caller)]) @
            (if truthy kind then [Path (\<lambda>r. r_type r = kind)] else []) @
            (if truthy format then [Path (\<lambda>r. r_format r = format)] else []) @
            date_range E startDate endDate
      in case find_sorted_page E query (with_default 1 page) (with_default 10 limit) (reports d) of
           None \<Rightarrow> internal_error ''Error fetching reports''
         | Some found \<Rightarrow> Success 200 found)"

text \<open>GET /reports/:id (lines 160 to 190)\<close>

definition report_get :: "env \<Rightarrow> user \<Rightarrow> objectId \<Rightarrow> db \<Rightarrow> report response" where
  "report_get E caller i d =
     (let query =
            Path (\<lambda>r. doc_id r = i) #
            (if is_professional caller then [Path (\<lambda>r. professionalId r = u_id caller)]
             else [Path (\<lambda>r. userId r = u_id caller)])
      in case findOne E query (reports d) of
           None \<Rightarrow> not_found ''Report not found''
         | Some report \<Rightarrow> Success 200 report)"

text \<open>POST /reports/:id/share (lines 193 to 221)\<close>

definition report_share :: "env \<Rightarrow> string \<times> string \<Rightarrow> user \<Rightarrow> objectId \<Rightarrow> db \<Rightarrow> report response \<times> db" where
  "report_share E random caller i d =
     (case findOne E [Path (\<lambda>r. doc_id r = i), Path (\<lambda>r. professionalId r = u_id caller)] (reports d) of
        None \<Rightarrow> (not_found ''Report not found'', d)
      | Some report \<Rightarrow>
          (case save_report random (report\<lparr>r_shared := True\<rparr>) d of
             Inl error \<Rightarrow> (internal_error ''Error sharing report'', d)
           | Inr (saved, d') \<Rightarrow> (Success 200 saved, d')))"


text \<open>DELETE /reports/:id (lines 252 to 277)\<close>

definition report_delete :: "env \<Rightarrow> user \<Rightarrow> objectId \<Rightarrow> db \<Rightarrow> report response \<times> db" where
  "report_delete E caller i d =
     (let query = [Path (\<lambda>r. doc_id r = i), Path (\<lambda>r. professionalId r = u_id caller)]
      in case findOne E query (reports d) of
           None \<Rightarrow> (not_found ''Report not found'', d)
         | Some report \<Rightarrow>
             (Success 200 report, d\<lparr>reports := delete_first (matches E query) (reports d)\<rparr>))"

section \<open>Patients, continued (GET, PUT and DELETE /users/patients)\<close>

text \<open>GET /users/patients (routes/integration.js, lines 441 to 482); \<open>age\<close> is the
  number the query string casts to.\<close>

definition patient_list :: "env \<Rightarrow> user \<Rightarrow> string option \<Rightarrow> string option \<Rightarrow> number option \<Rightarrow> string option
    \<Rightarrow> string option \<Rightarrow> nat option \<Rightarrow> nat option \<Rightarrow> db \<Rightarrow> user listing response" where
  "patient_list E caller name gender age sport position page limit d =
     (let query =
            [Path (\<lambda>u. u_professionalId u = Some (u_id caller)), Path (\<lambda>u. u_role u = Some ''athlete'')] @
            (if truthy name
             then [Path (\<lambda>u. case u_name u of None \<Rightarrow> False | Some n \<Rightarrow> regex_i E (toString name) n)]
             else []) @
            (if truthy gender then [Path (\<lambda>u. u_gender u = gender)] else []) @
            (case age of None \<Rightarrow> [] | Some a \<Rightarrow> [Path (\<lambda>u. u_age u = Some a)]) @
            (if truthy sport then [Path (\<lambda>u. u_sport u = sport)] else []) @
            (if truthy position then [Path (\<lambda>u. u_position u = position)] else [])
      in case page_of E query (with_default 1 page) (with_default 10 limit) (users d)
                (map getPublicProfile (find_docs E query (users d))) of
           None \<Rightarrow> Failure 500 (MessageObj ''Error fetching patients'')
         | Some found \<Rightarrow> Success 200 found)"

definition owned_patient :: "user \<Rightarrow> objectId \<Rightarrow> user cond list" where
  "owned_patient caller i =
     [Path (\<lambda>u. u_id u = i), Path (\<lambda>u. u_role u = Some ''athlete''),
      Path (\<lambda>u. u_professionalId u = Some (u_id caller))]"

text \<open>GET /users/patients/:id (lines 485 to 511)\<close>

definition patient_get :: "env \<Rightarrow> user \<Rightarrow> objectId \<Rightarrow> db \<Rightarrow> user response" where
  "patient_get E caller i d =
     (case findOne E (owned_patient caller i) (users d) of
        None \<Rightarrow> not_found ''Patient not found''
      | Some patient \<Rightarrow> Success 200 (getPublicProfile patient))"

text \<open>PUT /users/patients/:id (lines 583 to 642). The body is the list of its keys with
  their values; a key has one value.\<close>

definition optional :: "(string \<times> string) list \<Rightarrow> string \<Rightarrow> (string \<Rightarrow> bool) \<Rightarrow> (string \<times> string) list" where
  "optional body param valid =
     (case map_of body param of
        None \<Rightarrow> []
      | Some v \<Rightarrow> if valid v then [] else [(param, ''Invalid value'')])"

definition patient_update_validators :: "env \<Rightarrow> (string \<times> string) list \<Rightarrow> (string \<times> string) list" where
  "patient_update_validators E body =
     optional body ''name'' (\<lambda>v. notEmpty (trim v)) @
     optional body ''email'' (isEmail E) @
     optional body ''gender'' (\<lambda>v. isIn v [''male'', ''female'', ''other'']) @
     optional body ''age'' isInt_min0 @
     optional body ''country'' (\<lambda>v. notEmpty (trim v))"

definition patient_assign :: "user \<Rightarrow> string \<times> string \<Rightarrow> user" where
  "patient_assign u kv =
     (if fst kv = ''name'' then u\<lparr>u_name := Some (trim (snd kv))\<rparr>
      else if fst kv = ''email'' then u\<lparr>u_email := Some (email_setters (snd kv))\<rparr>
      else if fst kv = ''gender'' then u\<lparr>u_gender := Some (snd kv)\<rparr>
      else if fst kv = ''age'' then u\<lparr>u_age := Some (castNumber (snd kv))\<rparr>
      else if fst kv = ''country'' then u\<lparr>u_country := Some (trim (snd kv))\<rparr>
      else if fst kv = ''sport'' then u\<lparr>u_sport := Some (trim (snd kv))\<rparr>
      else if fst kv = ''position'' then u\<lparr>u_position := Some (trim (snd kv))\<rparr>
      else u)"

text \<open>\<open>patient.save()\<close> of a stored user: validation, then the write, which the unique
  index on \<open>email\<close> can refuse (the password is not modified, so it is not hashed again).\<close>

definition save_user :: "user \<Rightarrow> db \<Rightarrow> save_error + (user \<times> db)" where
  "save_user u d =
     (case validate_user u of
        e # es \<Rightarrow> Inl (ValidationError (e # es))
      | [] \<Rightarrow>
          if list_ex (\<lambda>v. u_id v \<noteq> u_id u \<and> u_email v = u_email u) (users d) then Inl MongoError
          else Inr (u, d\<lparr>users := replace_first (\<lambda>v. u_id v = u_id u) u (users d)\<rparr>))"

definition patient_update :: "env \<Rightarrow> user \<Rightarrow> objectId \<Rightarrow> (string \<times> string) list \<Rightarrow> db \<Rightarrow> user response \<times> db" where
  "patient_update E caller i body d =
     (let errors = patient_update_validators E body
      in if errors \<noteq> [] then (Failure 400 (ErrorsArray errors), d)
         else
           case findOne E (owned_patient caller i) (users d) of
             None \<Rightarrow> (not_found ''Patient not found or not assigned to you'', d)
           | Some patient \<Rightarrow>
               if \<not> list_all (\<lambda>kv. fst kv \<in> set [''name'', ''email'', ''gender'', ''age'', ''country'',
                                                   ''sport'', ''position'']) body
               then (Failure 400 (ErrorObj (Some ''INVALID_UPDATE'') ''Invalid updates'' None), d)
               else
                 (case save_user (foldl patient_assign patient body) d of
                    Inl error \<Rightarrow> (internal_error ''Error updating patient'', d)
                  | Inr (saved, d') \<Rightarrow> (Success 200 (getPublicProfile saved), d')))"

text \<open>DELETE /users/patients/:id (lines 645 to 684): four operations, one per
  collection, issued together with \<open>Promise.all\<close>.\<close>

definition delete_measurements :: "env \<Rightarrow> objectId \<Rightarrow> db \<Rightarrow> db" where
  "delete_measurements E patient_id d =
     d\<lparr>anthropometrics := deleteMany E [Path (\<lambda>m. userId m = patient_id)] (anthropometrics d)\<rparr>"

definition delete_health :: "env \<Rightarrow> objectId \<Rightarrow> db \<Rightarrow> db" where
  "delete_health E patient_id d =
     d\<lparr>healths := deleteMany E [Path (\<lambda>m. userId m = patient_id)] (healths d)\<rparr>"

definition delete_performance :: "env \<Rightarrow> objectId \<Rightarrow> db \<Rightarrow> db" where
  "delete_performance E patient_id d =
     d\<lparr>performances := deleteMany E [Path (\<lambda>m. userId m = patient_id)] (performances d)\<rparr>"

definition delete_user :: "objectId \<Rightarrow> db \<Rightarrow> db" where
  "delete_user patient_id d = d\<lparr>users := delete_first (\<lambda>u. u_id u = patient_id) (users d)\<rparr>"

definition patient_delete :: "env \<Rightarrow> user \<Rightarrow> objectId \<Rightarrow> db \<Rightarrow> string response \<times> db" where
  "patient_delete E caller i d =
     (case findOne E (owned_patient caller i) (users d) of
        None \<Rightarrow> (not_found ''Patient not found or not assigned to you'', d)
      | Some patient \<Rightarrow>
          (Success 200 ''Patient deleted successfully'',
           delete_user (u_id patient)
             (delete_performance E (u_id patient)
                (delete_health E (u_id patient)
                   (delete_measurements E (u_id patient) d)))))"

section \<open>The roles of stored users\<close>

definition roles_ok :: "db \<Rightarrow> bool" where
  "roles_ok d = list_all (\<lambda>u. u_role u = Some ''athlete'' \<or> u_role u = Some ''professional'') (users d)"

section \<open>What belongs to a professional\<close>

text \<open>
  The database without the records of other professionals: the measurements and reports
  stamped with the caller's id, and the users that are not another professional's
  patients. A record is foreign to the caller when it is stored with another
  \<open>professionalId\<close>; ids are unique within a collection, as the database's \<open>_id\<close> is.
\<close>

definition without_others :: "user \<Rightarrow> db \<Rightarrow> db" where
  "without_others caller d =
     d\<lparr>anthropometrics := filter (\<lambda>m. professionalId m = u_id caller) (anthropometrics d),
       performances := filter (\<lambda>m. professionalId m = u_id caller) (performances d),
       reports := filter (\<lambda>r. professionalId r = u_id caller) (reports d),
       users := filter (\<lambda>u. u_professionalId u = None \<or> u_professionalId u = Some (u_id caller)) (users d)\<rparr>"

definition foreign :: "user \<Rightarrow> 'a stamped_scheme \<Rightarrow> 'a stamped_scheme list \<Rightarrow> bool" where
  "foreign caller m ds = (m \<in> set ds \<and> professionalId m \<noteq> u_id caller \<and> distinct (map doc_id ds))"

definition foreign_patient :: "user \<Rightarrow> user \<Rightarrow> user list \<Rightarrow> bool" where
  "foreign_patient caller u us =
     (u \<in> set us \<and> u_professionalId u \<noteq> Some (u_id caller) \<and> distinct (map u_id us))"

section \<open>A small deployment, for the concrete cases below\<close>

text \<open>
  An environment with stand-ins for the libraries (an e-mail has an at sign, a date
  string is read as its first digit, a hash is the password behind a prefix, a pattern
  matches a subject that contains it), and a database with two professionals, one
  athlete of the first, and some of their records.
\<close>

definition demo_env :: env where
  "demo_env =
     \<lparr>JWT_SECRET = ''access-secret'', REFRESH_TOKEN_SECRET = ''refresh-secret'',
      isEmail = (\<lambda>s. CHR ''@'' \<in> set s), normalizeEmail = (\<lambda>s. s),
      isISO8601 = (\<lambda>s. s \<noteq> []), parseDate = (\<lambda>s. int (case s of [] \<Rightarrow> 0 | c # cs \<Rightarrow> with_default 0 (digit c))),
      bcrypt_hash = (\<lambda>p. ''bcrypt:'' @ p), bcrypt_compare = (\<lambda>p h. h = ''bcrypt:'' @ p),
      regex_i = (\<lambda>pattern subject. \<exists>k \<in> set [0 ..< Suc (length subject)].
                   take (length pattern) (drop k (toLowerCase subject)) = toLowerCase pattern),
      strictQuery = False\<rparr>"

definition coach :: user where
  "coach =
     \<lparr>u_id = 1, u_name = Some ''Pat'', u_email = Some ''coach@example.com'',
      u_password = Some ''bcrypt:longpassword'', u_role = Some ''professional'', u_gender = None,
      u_age = None, u_country = None, u_professionalId = None, u_sport = None, u_position = None,
      u_specialization = Some ''nutrition'', u_licenseNumber = Some ''L1'',
      u_yearsOfExperience = Some (Finite 3), u_isActive = True\<rparr>"

definition rival :: user where
  "rival =
     \<lparr>u_id = 3, u_name = Some ''Quinn'', u_email = Some ''rival@example.com'',
      u_password = Some ''bcrypt:otherpassword'', u_role = Some ''professional'', u_gender = None,
      u_age = None, u_country = None, u_professionalId = None, u_sport = None, u_position = None,
      u_specialization = Some ''physiotherapy'', u_licenseNumber = Some ''L2'',
      u_yearsOfExperience = Some (Finite 7), u_isActive = True\<rparr>"

definition ana :: user where
  "ana =
     \<lparr>u_id = 2, u_name = Some ''Ana'', u_email = Some ''ana@example.com'',
      u_password = Some ''bcrypt:abcdefgh'', u_role = Some ''athlete'', u_gender = Some ''female'',
      u_age = Some (Finite 20), u_country = Some ''AR'', u_professionalId = Some 1, u_sport = None,
      u_position = None, u_specialization = None, u_licenseNumber = None,
      u_yearsOfExperience = None, u_isActive = True\<rparr>"

definition bea :: user where
  "bea =
     \<lparr>u_id = 4, u_name = Some ''Bea'', u_email = Some ''bea@example.com'',
      u_password = Some ''bcrypt:12345678'', u_role = Some ''athlete'', u_gender = Some ''other'',
      u_age = Some (Finite 31), u_country = Some ''UY'', u_professionalId = Some 3, u_sport = Some ''rowing'',
      u_position = None, u_specialization = None, u_licenseNumber = None,
      u_yearsOfExperience = None, u_isActive = True\<rparr>"

definition no_records :: db where
  "no_records = \<lparr>users = [coach], anthropometrics = [], performances = [], healths = [], reports = []\<rparr>"

definition ana_body :: register_body where
  "ana_body =
     \<lparr>rb_name = Some ''Ana'', rb_email = Some ''Ana@Example.com'', rb_password = Some ''abcdefgh'',
      rb_role = Some ''athlete'', rb_gender = Some ''female'', rb_age = Some ''20'',
      rb_country = Some ''AR'', rb_sport = None, rb_position = None,
      rb_professionalId = Some ''000000000000000000000001'', rb_specialization = None,
      rb_licenseNumber = None, rb_yearsOfExperience = None\<rparr>"


definition short_password_body :: patient_body where
  "short_password_body =
     \<lparr>pb_name = Some ''Ana'', pb_email = Some ''ana@example.com'', pb_password = Some ''abcdef'',
      pb_gender = Some ''female'', pb_age = Some ''20'', pb_country = Some ''AR'',
      pb_sport = None, pb_position = None\<rparr>"

definition measurement_10 :: anthropometric where
  "measurement_10 =
     \<lparr>doc_id = 10, userId = 2, date = 5, professionalId = 1,
      am_weight = Some 80, am_height = Some 180, am_skinfolds = [], am_perimeters = [],
      am_bodyFatPercentage = Some 20, am_leanMass = Some 64, am_notes = None\<rparr>"

definition measurement_11 :: anthropometric where
  "measurement_11 =
     \<lparr>doc_id = 11, userId = 4, date = 7, professionalId = 3,
      am_weight = Some 60, am_height = Some 165, am_skinfolds = [], am_perimeters = [],
      am_bodyFatPercentage = Some 25, am_leanMass = Some 45, am_notes = None\<rparr>"

definition record_12 :: performance where
  "record_12 =
     \<lparr>doc_id = 12, userId = 2, date = 6, professionalId = 1,
      pm_vo2max = Some 50, pm_power = None, pm_speed = None, pm_trainingLoad = None,
      pm_sport = Some ''running'', pm_position = None, pm_notes = None\<rparr>"

definition record_13 :: performance where
  "record_13 =
     \<lparr>doc_id = 13, userId = 4, date = 8, professionalId = 3,
      pm_vo2max = Some 44, pm_power = None, pm_speed = None, pm_trainingLoad = None,
      pm_sport = Some ''rowing'', pm_position = None, pm_notes = None\<rparr>"

definition health_14 :: health where
  "health_14 =
     \<lparr>doc_id = 14, userId = 2, date = 6,
      hm_sleep = [], hm_stress = Some 30, hm_restingHeartRate = None,
      hm_heartRateVariability = None, hm_steps = Some 9000, hm_source = Some ''garmin'',
      hm_notes = None\<rparr>"

definition health_15 :: health where
  "health_15 =
     \<lparr>doc_id = 15, userId = 4, date = 6,
      hm_sleep = [], hm_stress = None, hm_restingHeartRate = Some 52,
      hm_heartRateVariability = None, hm_steps = None, hm_source = Some ''apple_health'',
      hm_notes = None\<rparr>"

definition no_content :: content where
  "no_content =
     \<lparr>ct_name = Some ''Ana'', ct_age = Some (Finite 20), ct_gender = Some ''female'', ct_sport = None,
      ct_position = None, ct_measurements = [], ct_performance = [], ct_health = [],
      ct_start = None, ct_end = None\<rparr>"

definition report_16 :: report where
  "report_16 =
     \<lparr>doc_id = 16, userId = 2, date = 9, professionalId = 1,
      r_type = Some ''individual'', r_format = Some ''pdf'', r_content = Some no_content,
      r_shared = False, r_accessCode = None\<rparr>"

definition report_17 :: report where
  "report_17 =
     \<lparr>doc_id = 17, userId = 4, date = 9, professionalId = 3,
      r_type = Some ''individual'', r_format = Some ''excel'', r_content = Some no_content,
      r_shared = True, r_accessCode = Some ''k3j9x0p2q1abczz81mnw4e7rty''\<rparr>"

definition clinic :: db where
  "clinic =
     \<lparr>users = [coach, ana, rival, bea],
      anthropometrics = [measurement_10, measurement_11],
      performances = [record_12, record_13],
      healths = [health_14, health_15],
      reports = [report_16, report_17]\<rparr>"

definition weekly_body :: report_body where
  "weekly_body =
     \<lparr>pr_userId = Some ''000000000000000000000002'', pr_type = Some ''weekly'',
      pr_format = Some ''pdf'', pr_startDate = None, pr_endDate = None, pr_metrics = None,
      pr_shared = None\<rparr>"

definition individual_body :: report_body where
  "individual_body =
     \<lparr>pr_userId = Some ''000000000000000000000002'', pr_type = Some ''individual'',
      pr_format = Some ''pdf'', pr_startDate = None, pr_endDate = None, pr_metrics = None,
      pr_shared = None\<rparr>"

definition strict_env :: env where
  "strict_env = demo_env\<lparr>strictQuery := True\<rparr>"




definition clinic_without_bea :: db where
  "clinic_without_bea = clinic\<lparr>users := [coach, ana, rival]\<rparr>"

section \<open>Queries: basic facts\<close>

lemma matches_Nil [simp]: "matches E [] d"
  by (simp add: matches_def)

lemma matches_Path [simp]: "matches E (Path p # q) d = (p d \<and> matches E q d)"
  by (simp add: matches_def)

lemma matches_NoPath [simp]: "matches E (NoPath f # q) d = (strictQuery E \<and> matches E q d)"
  by (simp add: matches_def)

lemma matches_append [simp]: "matches E (q @ q') d = (matches E q d \<and> matches E q' d)"
  by (simp add: matches_def)

lemma findOne_None: "findOne E q ds = None \<longleftrightarrow> (\<forall>d \<in> set ds. \<not> matches E q d)"
  by (auto simp: findOne_def find_None_iff)

lemma findOne_Some_holds: "findOne E q ds = Some d \<Longrightarrow> d \<in> set ds \<and> matches E q d"
  by (auto simp: findOne_def find_Some_iff)

section \<open>Token issuance at login\<close>

lemma login_claims:
  "login E now b d = Success st (u, t, rt) \<Longrightarrow>
     t = Signed \<lparr>c_userId = u_id u, c_role = None\<rparr> (JWT_SECRET E) now (now + 3600) \<and>
     rt = Signed \<lparr>c_userId = u_id u, c_role = None\<rparr> (REFRESH_TOKEN_SECRET E) now (now + 604800)"
  by (auto simp: login_def Let_def jwt_sign_def hour_def days7_def getPublicProfile_def
           split: if_splits option.splits)

lemma coach_by_email:
  "findOne demo_env [by_email ''coach@example.com''] (users no_records) = Some coach"
  by code_simp

text \<open>
  C2. The claim: the access token of a successful login signs the claim set
  \<open>{userId, role}\<close>. The code: the login of the stored professional, with the right
  password, answers 200 with an access token whose claim set is \<open>{userId}\<close> alone
  (one hour, the access secret) and a refresh token over \<open>{userId}\<close> (seven days, the
  refresh secret). Registration, the sibling path, signs \<open>{userId, role}\<close>.
\<close>

theorem login_access_token_without_role:
  "login demo_env 1000 \<lparr>lb_email = Some ''coach@example.com'', lb_password = Some ''longpassword''\<rparr>
      no_records =
     Success 200 (getPublicProfile coach,
       Signed \<lparr>c_userId = 1, c_role = None\<rparr> ''access-secret'' 1000 4600,
       Signed \<lparr>c_userId = 1, c_role = None\<rparr> ''refresh-secret'' 1000 605800)"
proof -
  have e: "isEmail demo_env ''coach@example.com''" by code_simp
  have n: "normalizeEmail demo_env ''coach@example.com'' = ''coach@example.com''"
    by (simp add: demo_env_def)
  have c: "bcrypt_compare demo_env ''longpassword'' (toString (u_password coach))" by code_simp
  have k: "JWT_SECRET demo_env = ''access-secret''" "REFRESH_TOKEN_SECRET demo_env = ''refresh-secret''"
    by (simp_all add: demo_env_def)
  have i: "u_id coach = 1" by (simp add: coach_def)
  show ?thesis
    by (simp add: login_def toString_def notEmpty_def e n coach_by_email c [unfolded toString_def] k i
          jwt_sign_def hour_def days7_def)
qed

section \<open>Refreshing\<close>

text \<open>
  C5. Refreshing with a token that is not validly signed (\<open>Unsigned\<close>, or signed by
  another key), that has expired, or whose user is gone, answers 401
  \<open>INVALID_TOKEN\<close>; refreshing with a valid token answers 200 with a new pair, signed
  now, for one hour and for seven days; the handler leaves the database as it was, and
  the same refresh token is accepted again at any later time before its own expiry.
\<close>

theorem refresh_contract:
  "refresh E now (Some Unsigned) d =
     (Failure 401 (ErrorObj (Some ''INVALID_TOKEN'') ''Invalid refresh token'' None), d)
   \<and> (k \<noteq> REFRESH_TOKEN_SECRET E \<or> ex \<le> now \<or> (\<forall>u \<in> set (users d). u_id u \<noteq> c_userId c) \<longrightarrow>
        refresh E now (Some (Signed c k iat ex)) d =
          (Failure 401 (ErrorObj (Some ''INVALID_TOKEN'') ''Invalid refresh token'' None), d))
   \<and> (now < ex \<and> (\<exists>u \<in> set (users d). u_id u = c_userId c) \<longrightarrow>
        refresh E now (Some (Signed c (REFRESH_TOKEN_SECRET E) iat ex)) d =
          (Success 200
             (Signed \<lparr>c_userId = c_userId c, c_role = None\<rparr> (JWT_SECRET E) now (now + 3600),
              Signed \<lparr>c_userId = c_userId c, c_role = None\<rparr> (REFRESH_TOKEN_SECRET E) now (now + 604800)),
           d))
   \<and> (now < ex \<and> now \<le> later \<and> later < ex \<and> (\<exists>u \<in> set (users d). u_id u = c_userId c) \<longrightarrow>
        refresh E later (Some (Signed c (REFRESH_TOKEN_SECRET E) iat ex))
            (snd (refresh E now (Some (Signed c (REFRESH_TOKEN_SECRET E) iat ex)) d)) =
          (Success 200
             (Signed \<lparr>c_userId = c_userId c, c_role = None\<rparr> (JWT_SECRET E) later (later + 3600),
              Signed \<lparr>c_userId = c_userId c, c_role = None\<rparr> (REFRESH_TOKEN_SECRET E) later (later + 604800)),
           d))"
proof -
  let ?q = "[Path (\<lambda>u. u_id u = c_userId c)]"
  have ok: "refresh E t (Some (Signed c (REFRESH_TOKEN_SECRET E) iat ex)) d =
          (Success 200
             (Signed \<lparr>c_userId = c_userId c, c_role = None\<rparr> (JWT_SECRET E) t (t + 3600),
              Signed \<lparr>c_userId = c_userId c, c_role = None\<rparr> (REFRESH_TOKEN_SECRET E) t (t + 604800)), d)"
    if "t < ex" and "\<exists>u \<in> set (users d). u_id u = c_userId c" for t
  proof -
    from that(2) have "findOne E ?q (users d) \<noteq> None"
      by (simp add: findOne_None)
    then obtain u where u: "findOne E ?q (users d) = Some u" by blast
    from findOne_Some_holds[OF u] have "u_id u = c_userId c" by simp
    with u that(1) show ?thesis
      by (simp add: refresh_def jwt_sign_def hour_def days7_def)
  qed
  have bad: "refresh E now (Some (Signed c k iat ex)) d =
          (Failure 401 (ErrorObj (Some ''INVALID_TOKEN'') ''Invalid refresh token'' None), d)"
    if "k \<noteq> REFRESH_TOKEN_SECRET E \<or> ex \<le> now \<or> (\<forall>u \<in> set (users d). u_id u \<noteq> c_userId c)"
  proof (cases "k = REFRESH_TOKEN_SECRET E \<and> now < ex")
    case False
    then show ?thesis by (auto simp: refresh_def)
  next
    case True
    with that have "findOne E ?q (users d) = None" by (auto simp: findOne_None)
    with True show ?thesis by (simp add: refresh_def)
  qed
  have unsigned: "refresh E now (Some Unsigned) d =
     (Failure 401 (ErrorObj (Some ''INVALID_TOKEN'') ''Invalid refresh token'' None), d)"
    by (simp add: refresh_def)
  show ?thesis using unsigned bad ok[of now] ok[of later] by simp
qed

theorem refresh_contract_witness:
  "refresh demo_env 5000 (Some (Signed \<lparr>c_userId = 1, c_role = None\<rparr> ''refresh-secret'' 1000 605800))
      no_records =
     (Success 200
        (Signed \<lparr>c_userId = 1, c_role = None\<rparr> ''access-secret'' 5000 8600,
         Signed \<lparr>c_userId = 1, c_role = None\<rparr> ''refresh-secret'' 5000 609800), no_records)
   \<and> refresh demo_env 600000 (Some (Signed \<lparr>c_userId = 1, c_role = None\<rparr> ''refresh-secret'' 1000 605800))
        (snd (refresh demo_env 5000
                (Some (Signed \<lparr>c_userId = 1, c_role = None\<rparr> ''refresh-secret'' 1000 605800)) no_records)) =
     (Success 200
        (Signed \<lparr>c_userId = 1, c_role = None\<rparr> ''access-secret'' 600000 603600,
         Signed \<lparr>c_userId = 1, c_role = None\<rparr> ''refresh-secret'' 600000 1204800), no_records)
   \<and> refresh demo_env 605800 (Some (Signed \<lparr>c_userId = 1, c_role = None\<rparr> ''refresh-secret'' 1000 605800))
        no_records =
     (Failure 401 (ErrorObj (Some ''INVALID_TOKEN'') ''Invalid refresh token'' None), no_records)
   \<and> refresh demo_env 5000 (Some (Signed \<lparr>c_userId = 1, c_role = None\<rparr> ''access-secret'' 1000 605800))
        no_records =
     (Failure 401 (ErrorObj (Some ''INVALID_TOKEN'') ''Invalid refresh token'' None), no_records)
   \<and> refresh demo_env 5000 (Some (Signed \<lparr>c_userId = 9, c_role = None\<rparr> ''refresh-secret'' 1000 605800))
        no_records =
     (Failure 401 (ErrorObj (Some ''INVALID_TOKEN'') ''Invalid refresh token'' None), no_records)"
proof -
  let ?c = "\<lparr>c_userId = 1, c_role = None\<rparr>"
  have s: "REFRESH_TOKEN_SECRET demo_env = ''refresh-secret''" "JWT_SECRET demo_env = ''access-secret''"
    by (simp_all add: demo_env_def)
  have u: "users no_records = [coach]" "u_id coach = 1"
    by (simp_all add: no_records_def coach_def)
  note valid = refresh_contract[where E = demo_env and d = no_records and c = ?c and now = 5000
      and later = 600000 and iat = 1000 and ex = 605800 and k = "''access-secret''", unfolded s]
  note expired = refresh_contract[where E = demo_env and d = no_records and c = ?c and now = 605800
      and later = 605800 and iat = 1000 and ex = 605800 and k = "''refresh-secret''", unfolded s]
  note gone = refresh_contract[where E = demo_env and d = no_records
      and c = "\<lparr>c_userId = 9, c_role = None\<rparr>" and now = 5000 and later = 5000 and iat = 1000
      and ex = 605800 and k = "''refresh-secret''", unfolded s]
  show ?thesis
  proof (intro conjI)
    show "refresh demo_env 5000 (Some (Signed ?c ''refresh-secret'' 1000 605800)) no_records =
       (Success 200 (Signed ?c ''access-secret'' 5000 8600, Signed ?c ''refresh-secret'' 5000 609800),
        no_records)"
      using valid [THEN conjunct2, THEN conjunct2, THEN conjunct1] by (simp add: u)
    show "refresh demo_env 600000 (Some (Signed ?c ''refresh-secret'' 1000 605800))
        (snd (refresh demo_env 5000 (Some (Signed ?c ''refresh-secret'' 1000 605800)) no_records)) =
       (Success 200 (Signed ?c ''access-secret'' 600000 603600, Signed ?c ''refresh-secret'' 600000 1204800),
        no_records)"
      using valid [THEN conjunct2, THEN conjunct2, THEN conjunct2] by (simp add: u)
    show "refresh demo_env 605800 (Some (Signed ?c ''refresh-secret'' 1000 605800)) no_records =
       (Failure 401 (ErrorObj (Some ''INVALID_TOKEN'') ''Invalid refresh token'' None), no_records)"
      using expired [THEN conjunct2, THEN conjunct1] by simp
    show "refresh demo_env 5000 (Some (Signed ?c ''access-secret'' 1000 605800)) no_records =
       (Failure 401 (ErrorObj (Some ''INVALID_TOKEN'') ''Invalid refresh token'' None), no_records)"
      using valid [THEN conjunct2, THEN conjunct1] by simp
    show "refresh demo_env 5000 (Some (Signed \<lparr>c_userId = 9, c_role = None\<rparr> ''refresh-secret'' 1000 605800))
        no_records =
       (Failure 401 (ErrorObj (Some ''INVALID_TOKEN'') ''Invalid refresh token'' None), no_records)"
      using gone [THEN conjunct2, THEN conjunct1] by (simp add: u)
  qed
qed

section \<open>Registration\<close>









section \<open>Creating a patient\<close>

text \<open>
  C9. The claim: a patient whose password passes the route's validator (length at
  least 6) and fails the schema's \<open>minlength\<close> of 8 is answered with
  \<open>{field, message}\<close> details, as a request-validation failure is. The code: the
  professional's request with the password \<open>abcdef\<close> is answered 500
  \<open>INTERNAL_SERVER_ERROR\<close>, without details, and nothing is stored. (The registration
  handler is the one whose catch unpacks a validation error of the schema.)
\<close>

theorem create_patient_short_password:
  "create_patient demo_env coach 2 short_password_body no_records =
     (Failure 500 (ErrorObj (Some ''INTERNAL_SERVER_ERROR'') ''Error creating patient'' None), no_records)"
proof -
  have v: "patient_validators demo_env short_password_body = []" by code_simp
  have f: "findOne demo_env [by_email (toString (pb_email short_password_body))] (users no_records) = None"
    by code_simp
  have s: "save_new_user demo_env (new_patient coach 2 short_password_body) no_records =
             Inl (ValidationError [(''password'', ''minlength'')])" by code_simp
  show ?thesis by (simp add: create_patient_def v f s)
qed

section \<open>The lean-mass hook\<close>

lemma leanMass_hook_truthy:
  "modified_weight \<or> modified_bodyFat \<Longrightarrow> am_weight m = Some w \<Longrightarrow> am_bodyFatPercentage m = Some f \<Longrightarrow>
   w \<noteq> 0 \<Longrightarrow> f \<noteq> 0 \<Longrightarrow>
   leanMass_hook modified_weight modified_bodyFat m = m\<lparr>am_leanMass := Some (w * (1 - f / 100))\<rparr>"
  by (simp add: leanMass_hook_def truthy_number_def with_default_def)

lemma leanMass_hook_absent:
  "am_weight m = None \<or> am_bodyFatPercentage m = None \<Longrightarrow> leanMass_hook a b m = m"
  by (auto simp: leanMass_hook_def truthy_number_def)

text \<open>
  C10. The claim: a measurement saved with both \<open>weight\<close> and \<open>bodyFatPercentage\<close>
  present, one of them modified, gets \<open>leanMass = weight * (1 - bodyFatPercentage / 100)\<close>.
  The code: the professional's update of measurement 10 (weight 80, body fat 20, lean mass
  64) with \<open>bodyFatPercentage = 0\<close> passes the validators and is saved; the hook sees the
  modified path, finds the number 0 falsy and leaves \<open>leanMass\<close> at 64, where the
  claim's formula gives 80.
\<close>

theorem leanMass_stale_at_zero_body_fat:
  "anthropometric_update demo_env coach 10 [Set_bodyFatPercentage 0] clinic =
     (Success 200 (measurement_10\<lparr>am_bodyFatPercentage := Some 0\<rparr>),
      clinic\<lparr>anthropometrics := [measurement_10\<lparr>am_bodyFatPercentage := Some 0\<rparr>, measurement_11]\<rparr>)
   \<and> leanMass_hook False True (measurement_10\<lparr>am_bodyFatPercentage := Some 0\<rparr>) =
       measurement_10\<lparr>am_bodyFatPercentage := Some 0\<rparr>
   \<and> am_weight (measurement_10\<lparr>am_bodyFatPercentage := Some 0\<rparr>) = Some 80
   \<and> am_leanMass (measurement_10\<lparr>am_bodyFatPercentage := Some 0\<rparr>) = Some 64"
proof -
  let ?m = "measurement_10\<lparr>am_bodyFatPercentage := Some 0\<rparr>"
  have f: "findOne demo_env [Path (\<lambda>m. doc_id m = 10), Path (\<lambda>m. professionalId m = u_id coach)]
             (anthropometrics clinic) = Some measurement_10"
    by (simp add: findOne_def clinic_def measurement_10_def coach_def)
  have h: "leanMass_hook False True ?m = ?m"
    by (simp add: leanMass_hook_def truthy_number_def measurement_10_def)
  have v: "validate_anthropometric ?m = []"
    by (simp add: validate_anthropometric_def min0_def measurement_10_def)
  have s: "save_anthropometric measurement_10 ?m clinic =
             Inr (?m, clinic\<lparr>anthropometrics := [?m, measurement_11]\<rparr>)"
    by (simp add: save_anthropometric_def v Let_def)
       (simp add: measurement_10_def clinic_def leanMass_hook_def truthy_number_def)
  show ?thesis
    by (simp add: anthropometric_update_def f s h) (simp add: measurement_10_def)
qed

section \<open>The athlete's view of anthropometric measurements\<close>

text \<open>
  C4. The claim: an athlete's list and single get are scoped by the measurement's
  \<open>userId\<close>, so the list is exactly the athlete's own measurements. The code filters
  on \<open>athleteId\<close>, which the schema does not declare: athlete 2, who owns measurement
  10 and not measurement 11, gets an empty list and 404 for measurement 10 when the
  filter reaches the database, and gets both measurements, and measurement 11 by its id,
  when \<open>strictQuery\<close> strips the filter.
\<close>

theorem athlete_queries_filter_on_athleteId:
  "anthropometric_list demo_env ana None None None None None clinic =
     Success 200 \<lparr>l_data = [], l_total = 0, l_page = 1, l_limit = 10, l_pages = Some 0\<rparr>
   \<and> anthropometric_get demo_env ana 10 clinic = not_found ''Measurement not found''
   \<and> anthropometric_list strict_env ana None None None None None clinic =
     Success 200 \<lparr>l_data = [measurement_11, measurement_10], l_total = 2, l_page = 1, l_limit = 10,
                  l_pages = Some 1\<rparr>
   \<and> anthropometric_get strict_env ana 11 clinic = Success 200 measurement_11
   \<and> userId measurement_10 = u_id ana \<and> userId measurement_11 \<noteq> u_id ana"
proof -
  have p: "\<not> is_professional ana" by (simp add: is_professional_def ana_def)
  have sq: "strictQuery demo_env = False" "strictQuery strict_env = True"
    by (simp_all add: demo_env_def strict_env_def)
  have a: "anthropometrics clinic = [measurement_10, measurement_11]" by (simp add: clinic_def)
  have dt: "date measurement_10 = 5" "date measurement_11 = 7" "doc_id measurement_10 = 10" "doc_id measurement_11 = 11"
    by (simp_all add: measurement_10_def measurement_11_def)
  show ?thesis
    by (simp add: anthropometric_list_def anthropometric_get_def p sq a dt Let_def date_range_def truthy_def
          find_sorted_page_def page_of_def skip_limit_def pagination_def countDocuments_def find_docs_def
          findOne_def with_default_def)
       (simp add: measurement_10_def measurement_11_def ana_def)
qed

section \<open>Creating a report\<close>

lemma validate_user_role:
  "validate_user u = [] \<Longrightarrow> u_role u = Some ''athlete'' \<or> u_role u = Some ''professional''"
  by (auto simp: validate_user_def Let_def required_def isIn_def toString_def split: if_splits option.splits)

lemma set_replace_first: "set (replace_first p x xs) \<subseteq> insert x (set xs)"
  by (induction xs) auto

lemma set_delete_first: "set (delete_first p xs) \<subseteq> set xs"
  by (induction xs) auto

text \<open>
  C3, as stated, at a concrete input: a professional's POST /reports whose \<open>type\<close> is
  not one of the two allowed is answered 400 by the validators, not 404.
\<close>

theorem report_create_invalid_body:
  "report_create demo_env (''0.4fzyo82mvyr'', ''0.9kq1x7c3d2a'') 9 coach 18 weekly_body clinic =
     (Failure 400 (ErrorsArray [(''type'', ''Invalid value'')]), clinic)"
proof -
  have v: "report_validators demo_env weekly_body = [(''type'', ''Invalid value'')]" by code_simp
  show ?thesis by (simp add: report_create_def v)
qed

text \<open>
  C3, amended. Every way a user document is written (the save of a new user, the save of
  a stored one, the delete) keeps the roles of stored users within \<open>athlete\<close> and
  \<open>professional\<close>. With such users, the ownership lookup of POST /reports, which asks
  for the role \<open>user\<close>, finds nobody: a request that passes the validators is answered
  404, one that does not is answered 400, and in both cases the database is unchanged, so
  no report is created.
\<close>

theorem report_create_never_creates:
  "(roles_ok d \<longrightarrow>
      report_create E random today caller new_id b d =
        (if report_validators E b \<noteq> [] then Failure 400 (ErrorsArray (report_validators E b))
         else not_found ''User not found or not assigned to you'', d))
   \<and> (roles_ok d \<and> save_new_user E u d = Inr (saved, d') \<longrightarrow> roles_ok d')
   \<and> (roles_ok d \<and> save_user u d = Inr (saved, d') \<longrightarrow> roles_ok d')
   \<and> (roles_ok d \<longrightarrow> roles_ok (delete_user i d))"
proof (intro conjI impI)
  assume ok: "roles_ok d"
  let ?q = "[Path (\<lambda>u. u_id u = castObjectId (toString (pr_userId b))),
             Path (\<lambda>u. u_role u = Some ''user''),
             Path (\<lambda>u. u_professionalId u = Some (u_id caller))]"
  from ok have "findOne E ?q (users d) = None"
    by (auto simp: findOne_None roles_ok_def list_all_iff)
  then show "report_create E random today caller new_id b d =
        (if report_validators E b \<noteq> [] then Failure 400 (ErrorsArray (report_validators E b))
         else not_found ''User not found or not assigned to you'', d)"
    by (simp add: report_create_def Let_def)
next
  assume a: "roles_ok d \<and> save_new_user E u d = Inr (saved, d')"
  then have v: "validate_user u = []" and d': "d' = d\<lparr>users := users d @ [u\<lparr>u_password := map_option (bcrypt_hash E) (u_password u)\<rparr>]\<rparr>"
    by (auto simp: save_new_user_def Let_def split: list.splits if_splits)
  from validate_user_role[OF v] a show "roles_ok d'"
    by (simp add: d' roles_ok_def)
next
  assume a: "roles_ok d \<and> save_user u d = Inr (saved, d')"
  then have v: "validate_user u = []" and d': "d' = d\<lparr>users := replace_first (\<lambda>v. u_id v = u_id u) u (users d)\<rparr>"
    by (auto simp: save_user_def split: list.splits if_splits)
  from validate_user_role[OF v] a set_replace_first[of "\<lambda>v. u_id v = u_id u" u "users d"]
  show "roles_ok d'"
    by (auto simp: d' roles_ok_def list_all_iff)
next
  assume "roles_ok d"
  with set_delete_first[of "\<lambda>u. u_id u = i" "users d"] show "roles_ok (delete_user i d)"
    by (auto simp: delete_user_def roles_ok_def list_all_iff)
qed


theorem report_create_never_creates_witness:
  "roles_ok clinic
   \<and> report_create demo_env (''0.4fzyo82mvyr'', ''0.9kq1x7c3d2a'') 9 coach 18 individual_body clinic =
       (not_found ''User not found or not assigned to you'', clinic)
   \<and> roles_ok no_records
   \<and> save_new_user demo_env (new_Athlete 2 ana_body) no_records =
       Inr (ana, no_records\<lparr>users := [coach, ana]\<rparr>)
   \<and> roles_ok (no_records\<lparr>users := [coach, ana]\<rparr>)
   \<and> save_user (ana\<lparr>u_sport := Some ''rowing''\<rparr>) clinic =
       Inr (ana\<lparr>u_sport := Some ''rowing''\<rparr>,
            clinic\<lparr>users := [coach, ana\<lparr>u_sport := Some ''rowing''\<rparr>, rival, bea]\<rparr>)
   \<and> roles_ok (clinic\<lparr>users := [coach, ana\<lparr>u_sport := Some ''rowing''\<rparr>, rival, bea]\<rparr>)
   \<and> roles_ok (delete_user 2 clinic)"
proof -
  let ?random = "(''0.4fzyo82mvyr'', ''0.9kq1x7c3d2a'')"
  let ?rower = "ana\<lparr>u_sport := Some ''rowing''\<rparr>"
  have rc: "roles_ok clinic"
    by (simp add: roles_ok_def clinic_def coach_def ana_def rival_def bea_def)
  have rn: "roles_ok no_records"
    by (simp add: roles_ok_def no_records_def coach_def)
  have v: "report_validators demo_env individual_body = []" by code_simp
  have s: "save_new_user demo_env (new_Athlete 2 ana_body) no_records =
             Inr (ana, no_records\<lparr>users := [coach, ana]\<rparr>)" by code_simp
  have vu: "validate_user ?rower = []" by code_simp
  have su: "save_user ?rower clinic = Inr (?rower, clinic\<lparr>users := [coach, ?rower, rival, bea]\<rparr>)"
    by (simp add: save_user_def vu) (simp add: clinic_def coach_def ana_def rival_def bea_def)
  note rules = report_create_never_creates[where E = demo_env and random = ?random and today = 9
      and caller = coach and new_id = 18 and b = individual_body and d = clinic and i = 2
      and u = ?rower and saved = ?rower and d' = "clinic\<lparr>users := [coach, ?rower, rival, bea]\<rparr>"]
  note new = report_create_never_creates[where E = demo_env and d = no_records
      and u = "new_Athlete 2 ana_body" and saved = ana and d' = "no_records\<lparr>users := [coach, ana]\<rparr>",
      THEN conjunct2, THEN conjunct1, rule_format, OF conjI [OF rn s]]
  show ?thesis
  proof (intro conjI)
    show "roles_ok clinic" by (fact rc)
    show "report_create demo_env ?random 9 coach 18 individual_body clinic =
       (not_found ''User not found or not assigned to you'', clinic)"
      using rules [THEN conjunct1, rule_format, OF rc] by (simp add: v)
    show "roles_ok no_records" by (fact rn)
    show "save_new_user demo_env (new_Athlete 2 ana_body) no_records =
       Inr (ana, no_records\<lparr>users := [coach, ana]\<rparr>)" by (fact s)
    show "roles_ok (no_records\<lparr>users := [coach, ana]\<rparr>)" by (fact new)
    show "save_user ?rower clinic = Inr (?rower, clinic\<lparr>users := [coach, ?rower, rival, bea]\<rparr>)"
      by (fact su)
    show "roles_ok (clinic\<lparr>users := [coach, ?rower, rival, bea]\<rparr>)"
      by (rule rules [THEN conjunct2, THEN conjunct2, THEN conjunct1, rule_format, OF conjI [OF rc su]])
    show "roles_ok (delete_user 2 clinic)"
      by (rule rules [THEN conjunct2, THEN conjunct2, THEN conjunct2, rule_format, OF rc])
  qed
qed

section \<open>Sharing a report\<close>



















section \<open>Deleting a patient\<close>

lemma deleteMany_by_userId:
  "deleteMany E [Path (\<lambda>m. userId m = i)] ds = filter (\<lambda>m. userId m \<noteq> i) ds"
  by (simp add: deleteMany_def)

lemma delete_first_distinct:
  "distinct (map f xs) \<Longrightarrow> delete_first (\<lambda>x. f x = i) xs = filter (\<lambda>x. f x \<noteq> i) xs"
proof (induction xs)
  case Nil
  then show ?case by simp
next
  case (Cons x xs)
  show ?case
  proof (cases "f x = i")
    case True
    with Cons.prems have "\<forall>y \<in> set xs. f y \<noteq> i" by (force simp: image_iff)
    then have "filter (\<lambda>x. f x \<noteq> i) xs = xs" by (simp add: filter_id_conv)
    with True show ?thesis by simp
  next
    case False
    with Cons show ?thesis by simp
  qed
qed

text \<open>
  C8. When the caller's patient \<open>i\<close> is found, DELETE /users/patients/:id answers 200
  and leaves the database with the anthropometric, health and performance records whose
  \<open>userId\<close> is \<open>i\<close> removed, one user document with that id removed, and everything
  else as it was: the records of other users in those collections, and all reports, also
  those that reference the patient. The four deletions touch one collection each, so their
  order does not matter (they are issued together and are not atomic; the state after all
  four is what is stated). With unique user ids the remaining users are exactly those with
  another id. When no such patient of the caller's is found the answer is 404 and nothing
  is deleted.
\<close>

theorem patient_delete_cascade:
  "(findOne E (owned_patient caller i) (users d) = Some patient \<longrightarrow>
      patient_delete E caller i d =
        (Success 200 ''Patient deleted successfully'',
         d\<lparr>anthropometrics := filter (\<lambda>m. userId m \<noteq> i) (anthropometrics d),
           healths := filter (\<lambda>m. userId m \<noteq> i) (healths d),
           performances := filter (\<lambda>m. userId m \<noteq> i) (performances d),
           users := delete_first (\<lambda>u. u_id u = i) (users d)\<rparr>)
      \<and> reports (snd (patient_delete E caller i d)) = reports d
      \<and> delete_user i (delete_performance E i (delete_health E i (delete_measurements E i d))) =
        delete_measurements E i (delete_health E i (delete_performance E i (delete_user i d))))
   \<and> (distinct (map u_id (users d)) \<longrightarrow>
        delete_first (\<lambda>u. u_id u = i) (users d) = filter (\<lambda>u. u_id u \<noteq> i) (users d))
   \<and> (findOne E (owned_patient caller i) (users d) = None \<longrightarrow>
        patient_delete E caller i d = (not_found ''Patient not found or not assigned to you'', d))"
proof (intro conjI impI)
  assume f: "findOne E (owned_patient caller i) (users d) = Some patient"
  from findOne_Some_holds[OF f] have p: "u_id patient = i" by (simp add: owned_patient_def)
  show r: "patient_delete E caller i d =
        (Success 200 ''Patient deleted successfully'',
         d\<lparr>anthropometrics := filter (\<lambda>m. userId m \<noteq> i) (anthropometrics d),
           healths := filter (\<lambda>m. userId m \<noteq> i) (healths d),
           performances := filter (\<lambda>m. userId m \<noteq> i) (performances d),
           users := delete_first (\<lambda>u. u_id u = i) (users d)\<rparr>)"
    by (simp add: patient_delete_def f p delete_user_def delete_performance_def delete_health_def
          delete_measurements_def deleteMany_by_userId)
  show "reports (snd (patient_delete E caller i d)) = reports d"
    by (simp add: r)
  show "delete_user i (delete_performance E i (delete_health E i (delete_measurements E i d))) =
        delete_measurements E i (delete_health E i (delete_performance E i (delete_user i d)))"
    by (simp add: delete_user_def delete_performance_def delete_health_def delete_measurements_def)
next
  assume "distinct (map u_id (users d))"
  then show "delete_first (\<lambda>u. u_id u = i) (users d) = filter (\<lambda>u. u_id u \<noteq> i) (users d)"
    by (rule delete_first_distinct)
next
  assume "findOne E (owned_patient caller i) (users d) = None"
  then show "patient_delete E caller i d = (not_found ''Patient not found or not assigned to you'', d)"
    by (simp add: patient_delete_def)
qed

lemma ana_found: "findOne demo_env (owned_patient coach 2) (users clinic) = Some ana"
  by code_simp

lemma bea_hidden: "findOne demo_env (owned_patient coach 4) (users clinic) = None"
  by code_simp

theorem patient_delete_cascade_witness:
  "findOne demo_env (owned_patient coach 2) (users clinic) = Some ana
   \<and> patient_delete demo_env coach 2 clinic =
       (Success 200 ''Patient deleted successfully'',
        \<lparr>users = [coach, rival, bea], anthropometrics = [measurement_11], performances = [record_13],
         healths = [health_15], reports = [report_16, report_17]\<rparr>)
   \<and> userId report_16 = 2
   \<and> distinct (map u_id (users clinic))
   \<and> findOne demo_env (owned_patient coach 4) (users clinic) = None
   \<and> patient_delete demo_env coach 4 clinic = (not_found ''Patient not found or not assigned to you'', clinic)"
proof -
  have ids: "distinct (map u_id (users clinic))"
    by (simp add: clinic_def coach_def ana_def rival_def bea_def)
  note rules = patient_delete_cascade[where E = demo_env and caller = coach and i = 2 and d = clinic
      and patient = ana]
  note found = rules [THEN conjunct1, rule_format, OF ana_found, THEN conjunct1]
  note unique = rules [THEN conjunct2, THEN conjunct1, rule_format, OF ids]
  show ?thesis
  proof (intro conjI)
    show "findOne demo_env (owned_patient coach 2) (users clinic) = Some ana" by (fact ana_found)
    show "patient_delete demo_env coach 2 clinic =
       (Success 200 ''Patient deleted successfully'',
        \<lparr>users = [coach, rival, bea], anthropometrics = [measurement_11], performances = [record_13],
         healths = [health_15], reports = [report_16, report_17]\<rparr>)"
      unfolding found unique
      by (simp add: clinic_def coach_def ana_def rival_def bea_def measurement_10_def measurement_11_def
            record_12_def record_13_def health_14_def health_15_def)
    show "userId report_16 = 2" by (simp add: report_16_def)
    show "distinct (map u_id (users clinic))" by (fact ids)
    show "findOne demo_env (owned_patient coach 4) (users clinic) = None" by (fact bea_hidden)
    show "patient_delete demo_env coach 4 clinic = (not_found ''Patient not found or not assigned to you'', clinic)"
      by (rule patient_delete_cascade[where E = demo_env and caller = coach and i = 4 and d = clinic,
            THEN conjunct2, THEN conjunct2, rule_format, OF bea_hidden])
  qed
qed

section \<open>Isolation between professionals\<close>

lemma find_docs_within:
  "(\<And>x. matches E q x \<Longrightarrow> keep x) \<Longrightarrow> find_docs E q (filter keep ds) = find_docs E q ds"
  by (induction ds) (auto simp: find_docs_def)

lemma findOne_within:
  "(\<And>x. matches E q x \<Longrightarrow> keep x) \<Longrightarrow> findOne E q (filter keep ds) = findOne E q ds"
  by (induction ds) (auto simp: findOne_def)

lemma find_sorted_page_within:
  "(\<And>x. matches E q x \<Longrightarrow> keep x) \<Longrightarrow>
     find_sorted_page E q page limit (filter keep ds) = find_sorted_page E q page limit ds"
  by (simp add: find_sorted_page_def page_of_def countDocuments_def find_docs_within)

lemma skip_limit_subset: "skip_limit page limit xs = Some ys \<Longrightarrow> set ys \<subseteq> set xs"
  by (auto simp: skip_limit_def split: if_splits dest: in_set_takeD in_set_dropD)

lemma find_sorted_page_matches:
  "find_sorted_page E q page limit ds = Some found \<Longrightarrow> x \<in> set (l_data found) \<Longrightarrow> matches E q x"
  by (auto simp: find_sorted_page_def page_of_def pagination_def find_docs_def dest!: skip_limit_subset)

lemma findOne_foreign:
  "foreign caller m ds \<Longrightarrow>
     findOne E [Path (\<lambda>x. doc_id x = doc_id m), Path (\<lambda>x. professionalId x = u_id caller)] ds = None"
  by (auto simp: foreign_def findOne_None dest: inj_on_eq_iff [OF iffD1 [OF distinct_map, THEN conjunct2]])

lemma findOne_foreign_patient:
  "foreign_patient caller u us \<Longrightarrow> findOne E (owned_patient caller (u_id u)) us = None"
  by (auto simp: foreign_patient_def findOne_None owned_patient_def
           dest: inj_on_eq_iff [OF iffD1 [OF distinct_map, THEN conjunct2]])

lemma listing_matches:
  "(case find_sorted_page E q page limit ds of None \<Rightarrow> internal_error msg | Some f \<Rightarrow> Success 200 f)
     = Success st found \<Longrightarrow> x \<in> set (l_data found) \<Longrightarrow> matches E q x"
  by (cases "find_sorted_page E q page limit ds")
     (auto simp: internal_error_def dest: find_sorted_page_matches)

lemma anthropometric_list_isolated:
  assumes "is_professional caller"
  shows "anthropometric_list E caller athleteId startDate endDate page limit d =
         anthropometric_list E caller athleteId startDate endDate page limit (without_others caller d)"
    and "anthropometric_list E caller athleteId startDate endDate page limit d = Success st found \<Longrightarrow>
         list_all (\<lambda>m. professionalId m = u_id caller) (l_data found)"
proof -
  define q :: "anthropometric cond list" where
    "q = Path (\<lambda>m. professionalId m = u_id caller) #
         (if truthy athleteId then [NoPath ''athleteId''] else []) @ date_range E startDate endDate"
  have own: "matches E q x \<Longrightarrow> professionalId x = u_id caller" for x by (simp add: q_def)
  have h: "anthropometric_list E caller athleteId startDate endDate page limit d' =
        (case find_sorted_page E q (with_default 1 page) (with_default 10 limit) (anthropometrics d') of
           None \<Rightarrow> internal_error ''Error fetching measurements'' | Some f \<Rightarrow> Success 200 f)" for d'
    unfolding q_def anthropometric_list_def Let_def using assms by simp
  have a: "anthropometrics (without_others caller d) =
             filter (\<lambda>m. professionalId m = u_id caller) (anthropometrics d)"
    by (simp add: without_others_def)
  show "anthropometric_list E caller athleteId startDate endDate page limit d =
         anthropometric_list E caller athleteId startDate endDate page limit (without_others caller d)"
    unfolding h a by (simp only: find_sorted_page_within[of E q "\<lambda>m. professionalId m = u_id caller", OF own])
  assume "anthropometric_list E caller athleteId startDate endDate page limit d = Success st found"
  then show "list_all (\<lambda>m. professionalId m = u_id caller) (l_data found)"
    unfolding h list_all_iff by (blast dest: listing_matches own)
qed

lemma performance_list_isolated:
  assumes "is_professional caller"
  shows "performance_list E caller user_id startDate endDate sport page limit d =
         performance_list E caller user_id startDate endDate sport page limit (without_others caller d)"
    and "performance_list E caller user_id startDate endDate sport page limit d = Success st found \<Longrightarrow>
         list_all (\<lambda>m. professionalId m = u_id caller) (l_data found)"
proof -
  define q :: "performance cond list" where
    "q = Path (\<lambda>m. professionalId m = u_id caller) #
            (case user_id of None \<Rightarrow> [] | Some x \<Rightarrow> [Path (\<lambda>m. userId m = x)]) @
            date_range E startDate endDate @
            (if truthy sport
             then [Path (\<lambda>m. case pm_sport m of None \<Rightarrow> False
                                | Some s \<Rightarrow> regex_i E (toString sport) s)]
             else [])"
  have own: "matches E q x \<Longrightarrow> professionalId x = u_id caller" for x by (simp add: q_def)
  have h: "performance_list E caller user_id startDate endDate sport page limit d' =
        (case find_sorted_page E q (with_default 1 page) (with_default 10 limit) (performances d') of
           None \<Rightarrow> internal_error ''Error fetching performance records'' | Some f \<Rightarrow> Success 200 f)" for d'
    unfolding q_def performance_list_def Let_def using assms by simp
  have a: "performances (without_others caller d) =
             filter (\<lambda>m. professionalId m = u_id caller) (performances d)"
    by (simp add: without_others_def)
  show "performance_list E caller user_id startDate endDate sport page limit d =
         performance_list E caller user_id startDate endDate sport page limit (without_others caller d)"
    unfolding h a by (simp only: find_sorted_page_within[of E q "\<lambda>m. professionalId m = u_id caller", OF own])
  assume "performance_list E caller user_id startDate endDate sport page limit d = Success st found"
  then show "list_all (\<lambda>m. professionalId m = u_id caller) (l_data found)"
    unfolding h list_all_iff by (blast dest: listing_matches own)
qed

lemma report_list_isolated:
  assumes "is_professional caller"
  shows "report_list E caller kind format startDate endDate page limit d =
         report_list E caller kind format startDate endDate page limit (without_others caller d)"
    and "report_list E caller kind format startDate endDate page limit d = Success st found \<Longrightarrow>
         list_all (\<lambda>m. professionalId m = u_id caller) (l_data found)"
proof -
  define q :: "report cond list" where
    "q = Path (\<lambda>r. professionalId r = u_id caller) #
            (if truthy kind then [Path (\<lambda>r. r_type r = kind)] else []) @
            (if truthy format then [Path (\<lambda>r. r_format r = format)] else []) @
            date_range E startDate endDate"
  have own: "matches E q x \<Longrightarrow> professionalId x = u_id caller" for x by (simp add: q_def)
  have h: "report_list E caller kind format startDate endDate page limit d' =
        (case find_sorted_page E q (with_default 1 page) (with_default 10 limit) (reports d') of
           None \<Rightarrow> internal_error ''Error fetching reports'' | Some f \<Rightarrow> Success 200 f)" for d'
    unfolding q_def report_list_def Let_def using assms by simp
  have a: "reports (without_others caller d) = filter (\<lambda>m. professionalId m = u_id caller) (reports d)"
    by (simp add: without_others_def)
  show "report_list E caller kind format startDate endDate page limit d =
         report_list E caller kind format startDate endDate page limit (without_others caller d)"
    unfolding h a by (simp only: find_sorted_page_within[of E q "\<lambda>m. professionalId m = u_id caller", OF own])
  assume "report_list E caller kind format startDate endDate page limit d = Success st found"
  then show "list_all (\<lambda>m. professionalId m = u_id caller) (l_data found)"
    unfolding h list_all_iff by (blast dest: listing_matches own)
qed

lemma patient_list_isolated:
  shows "patient_list E caller name gender age sport position page limit d =
         patient_list E caller name gender age sport position page limit (without_others caller d)"
    and "patient_list E caller name gender age sport position page limit d = Success st found \<Longrightarrow>
         list_all (\<lambda>u. u_professionalId u = Some (u_id caller)) (l_data found)"
proof -
  define q :: "user cond list" where
    "q = [Path (\<lambda>u. u_professionalId u = Some (u_id caller)), Path (\<lambda>u. u_role u = Some ''athlete'')] @
            (if truthy name
             then [Path (\<lambda>u. case u_name u of None \<Rightarrow> False | Some n \<Rightarrow> regex_i E (toString name) n)]
             else []) @
            (if truthy gender then [Path (\<lambda>u. u_gender u = gender)] else []) @
            (case age of None \<Rightarrow> [] | Some a \<Rightarrow> [Path (\<lambda>u. u_age u = Some a)]) @
            (if truthy sport then [Path (\<lambda>u. u_sport u = sport)] else []) @
            (if truthy position then [Path (\<lambda>u. u_position u = position)] else [])"
  let ?keep = "\<lambda>u. u_professionalId u = None \<or> u_professionalId u = Some (u_id caller)"
  have own: "matches E q x \<Longrightarrow> u_professionalId x = Some (u_id caller)" for x by (simp add: q_def)
  then have keep: "matches E q x \<Longrightarrow> ?keep x" for x by simp
  have h: "patient_list E caller name gender age sport position page limit d' =
        (case page_of E q (with_default 1 page) (with_default 10 limit) (users d')
                (map getPublicProfile (find_docs E q (users d'))) of
           None \<Rightarrow> Failure 500 (MessageObj ''Error fetching patients'') | Some f \<Rightarrow> Success 200 f)" for d'
    unfolding q_def patient_list_def Let_def by simp
  have a: "users (without_others caller d) = filter ?keep (users d)"
    by (simp add: without_others_def)
  have same: "find_docs E q (filter ?keep (users d)) = find_docs E q (users d)"
    by (rule find_docs_within) (rule keep)
  show "patient_list E caller name gender age sport position page limit d =
         patient_list E caller name gender age sport position page limit (without_others caller d)"
    unfolding h a by (simp only: page_of_def countDocuments_def same)
  assume "patient_list E caller name gender age sport position page limit d = Success st found"
  then obtain shown where s: "skip_limit (with_default 1 page) (with_default 10 limit)
        (map getPublicProfile (find_docs E q (users d))) = Some shown" and f: "l_data found = shown"
    unfolding h page_of_def by (auto simp: pagination_def split: option.splits)
  from skip_limit_subset[OF s] own show "list_all (\<lambda>u. u_professionalId u = Some (u_id caller)) (l_data found)"
    unfolding f list_all_iff by (auto simp: find_docs_def getPublicProfile_def)
qed

lemma anthropometric_get_isolated:
  assumes "is_professional caller"
  shows "anthropometric_get E caller i d = anthropometric_get E caller i (without_others caller d)"
proof -
  let ?q = "[Path (\<lambda>m. doc_id m = i), Path (\<lambda>m. professionalId m = u_id caller)] :: anthropometric cond list"
  have "findOne E ?q (filter (\<lambda>m. professionalId m = u_id caller) (anthropometrics d)) =
        findOne E ?q (anthropometrics d)"
    by (rule findOne_within) simp
  with assms show ?thesis by (simp add: anthropometric_get_def without_others_def)
qed

lemma performance_get_isolated:
  assumes "is_professional caller"
  shows "performance_get E caller i d = performance_get E caller i (without_others caller d)"
proof -
  let ?q = "[Path (\<lambda>m. doc_id m = i), Path (\<lambda>m. professionalId m = u_id caller)] :: performance cond list"
  have "findOne E ?q (filter (\<lambda>m. professionalId m = u_id caller) (performances d)) =
        findOne E ?q (performances d)"
    by (rule findOne_within) simp
  with assms show ?thesis by (simp add: performance_get_def without_others_def)
qed

lemma report_get_isolated:
  assumes "is_professional caller"
  shows "report_get E caller i d = report_get E caller i (without_others caller d)"
proof -
  let ?q = "[Path (\<lambda>m. doc_id m = i), Path (\<lambda>m. professionalId m = u_id caller)] :: report cond list"
  have "findOne E ?q (filter (\<lambda>m. professionalId m = u_id caller) (reports d)) = findOne E ?q (reports d)"
    by (rule findOne_within) simp
  with assms show ?thesis by (simp add: report_get_def without_others_def)
qed

lemma owned_patient_within:
  "findOne E (owned_patient caller i) (users (without_others caller d)) =
   findOne E (owned_patient caller i) (users d)"
  unfolding without_others_def by (simp, rule findOne_within) (simp add: owned_patient_def)

lemma patient_get_isolated:
  "patient_get E caller i d = patient_get E caller i (without_others caller d)"
  by (simp add: patient_get_def owned_patient_within)

lemma stamped_within:
  "findOne E [Path (\<lambda>m. doc_id m = i), Path (\<lambda>m. professionalId m = c)]
     (filter (\<lambda>m. professionalId m = c) ds) =
   findOne E [Path (\<lambda>m. doc_id m = i), Path (\<lambda>m. professionalId m = c)] ds"
  by (rule findOne_within) simp

lemma anthropometric_foreign:
  assumes "foreign caller m (anthropometrics d)"
  shows "is_professional caller \<Longrightarrow> anthropometric_get E caller (doc_id m) d = not_found ''Measurement not found''"
    and "anthropometric_update E caller (doc_id m) body d =
           (if concat (map anthropometric_validator body) \<noteq> []
            then Failure 400 (ErrorsArray (concat (map anthropometric_validator body)))
            else not_found ''Measurement not found'', d)"
    and "anthropometric_delete E caller (doc_id m) d = (not_found ''Measurement not found'', d)"
  using findOne_foreign[OF assms, of E]
  by (simp_all add: anthropometric_get_def anthropometric_update_def anthropometric_delete_def Let_def)

lemma performance_foreign:
  assumes "foreign caller m (performances d)"
  shows "is_professional caller \<Longrightarrow> performance_get E caller (doc_id m) d = not_found ''Performance record not found''"
    and "performance_update E caller (doc_id m) body d =
           (if concat (map performance_validator body) \<noteq> []
            then Failure 400 (ErrorsArray (concat (map performance_validator body)))
            else not_found ''Performance record not found'', d)"
    and "performance_delete E caller (doc_id m) d = (not_found ''Performance record not found'', d)"
  using findOne_foreign[OF assms, of E]
  by (simp_all add: performance_get_def performance_update_def performance_delete_def Let_def)

lemma report_foreign:
  assumes "foreign caller m (reports d)"
  shows "is_professional caller \<Longrightarrow> report_get E caller (doc_id m) d = not_found ''Report not found''"
    and "report_share E random caller (doc_id m) d = (not_found ''Report not found'', d)"
    and "report_delete E caller (doc_id m) d = (not_found ''Report not found'', d)"
  using findOne_foreign[OF assms, of E]
  by (simp_all add: report_get_def report_share_def report_delete_def Let_def)

lemma patient_foreign:
  assumes "foreign_patient caller u (users d)"
  shows "patient_get E caller (u_id u) d = not_found ''Patient not found''"
    and "patient_update E caller (u_id u) body d =
           (if patient_update_validators E body \<noteq> []
            then Failure 400 (ErrorsArray (patient_update_validators E body))
            else not_found ''Patient not found or not assigned to you'', d)"
    and "patient_delete E caller (u_id u) d = (not_found ''Patient not found or not assigned to you'', d)"
  using findOne_foreign_patient[OF assms, of E]
  by (simp_all add: patient_get_def patient_update_def patient_delete_def Let_def)

lemma anthropometric_update_response:
  "fst (anthropometric_update E caller i body d) =
     (if concat (map anthropometric_validator body) \<noteq> []
      then Failure 400 (ErrorsArray (concat (map anthropometric_validator body)))
      else case findOne E [Path (\<lambda>m. doc_id m = i), Path (\<lambda>m. professionalId m = u_id caller)]
                  (anthropometrics d) of
             None \<Rightarrow> not_found ''Measurement not found''
           | Some m \<Rightarrow>
               if validate_anthropometric (foldl anthropometric_assign m body) = []
               then Success 200 (leanMass_hook (am_weight (foldl anthropometric_assign m body) \<noteq> am_weight m)
                      (am_bodyFatPercentage (foldl anthropometric_assign m body) \<noteq> am_bodyFatPercentage m)
                      (foldl anthropometric_assign m body))
               else internal_error ''Error updating measurement'')"
  by (simp add: anthropometric_update_def save_anthropometric_def Let_def split: option.splits list.splits)

lemma performance_update_response:
  "fst (performance_update E caller i body d) =
     (if concat (map performance_validator body) \<noteq> []
      then Failure 400 (ErrorsArray (concat (map performance_validator body)))
      else case findOne E [Path (\<lambda>m. doc_id m = i), Path (\<lambda>m. professionalId m = u_id caller)]
                  (performances d) of
             None \<Rightarrow> not_found ''Performance record not found''
           | Some m \<Rightarrow>
               if validate_performance (foldl performance_assign m body) = []
               then Success 200 (foldl performance_assign m body)
               else internal_error ''Error updating performance record'')"
  by (simp add: performance_update_def save_performance_def Let_def split: option.splits list.splits)

lemma write_responses_isolated:
  "fst (anthropometric_update E caller i a_body d) =
     fst (anthropometric_update E caller i a_body (without_others caller d))"
  "fst (anthropometric_delete E caller i d) = fst (anthropometric_delete E caller i (without_others caller d))"
  "fst (performance_update E caller i p_body d) =
     fst (performance_update E caller i p_body (without_others caller d))"
  "fst (performance_delete E caller i d) = fst (performance_delete E caller i (without_others caller d))"
  "fst (report_delete E caller i d) = fst (report_delete E caller i (without_others caller d))"
  "fst (patient_delete E caller i d) = fst (patient_delete E caller i (without_others caller d))"
proof -
  have a: "anthropometrics (without_others caller d) =
             filter (\<lambda>m. professionalId m = u_id caller) (anthropometrics d)"
    and p: "performances (without_others caller d) =
             filter (\<lambda>m. professionalId m = u_id caller) (performances d)"
    and r: "reports (without_others caller d) = filter (\<lambda>m. professionalId m = u_id caller) (reports d)"
    by (simp_all add: without_others_def)
  show "fst (anthropometric_update E caller i a_body d) =
     fst (anthropometric_update E caller i a_body (without_others caller d))"
    by (simp only: anthropometric_update_response a stamped_within)
  show "fst (performance_update E caller i p_body d) =
     fst (performance_update E caller i p_body (without_others caller d))"
    by (simp only: performance_update_response p stamped_within)
  show "fst (anthropometric_delete E caller i d) = fst (anthropometric_delete E caller i (without_others caller d))"
    by (simp add: anthropometric_delete_def Let_def a stamped_within split: option.splits)
  show "fst (performance_delete E caller i d) = fst (performance_delete E caller i (without_others caller d))"
    by (simp add: performance_delete_def Let_def p stamped_within split: option.splits)
  show "fst (report_delete E caller i d) = fst (report_delete E caller i (without_others caller d))"
    by (simp add: report_delete_def Let_def r stamped_within split: option.splits)
  show "fst (patient_delete E caller i d) = fst (patient_delete E caller i (without_others caller d))"
    by (simp add: patient_delete_def owned_patient_within split: option.splits)
qed

lemma coach_professional: "is_professional coach"
  by (simp add: is_professional_def coach_def)

lemma clinic_collections:
  "anthropometrics clinic = [measurement_10, measurement_11]"
  "performances clinic = [record_12, record_13]"
  "reports clinic = [report_16, report_17]"
  "users clinic = [coach, ana, rival, bea]"
  by (simp_all add: clinic_def)

lemma clinic_keys:
  "doc_id measurement_10 = 10" "doc_id measurement_11 = 11" "doc_id record_12 = 12" "doc_id record_13 = 13"
  "doc_id report_16 = 16" "doc_id report_17 = 17"
  "professionalId measurement_10 = 1" "professionalId measurement_11 = 3"
  "professionalId record_12 = 1" "professionalId record_13 = 3"
  "professionalId report_16 = 1" "professionalId report_17 = 3"
  "userId record_12 = 2" "userId record_13 = 4"
  "u_id coach = 1" "u_id ana = 2" "u_id rival = 3" "u_id bea = 4"
  "u_professionalId coach = None" "u_professionalId ana = Some 1"
  "u_professionalId rival = None" "u_professionalId bea = Some 3"
  "u_role coach = Some ''professional''" "u_role ana = Some ''athlete''"
  "u_role rival = Some ''professional''" "u_role bea = Some ''athlete''"
  by (simp_all add: measurement_10_def measurement_11_def record_12_def record_13_def report_16_def
        report_17_def coach_def ana_def rival_def bea_def)

lemma clinic_foreign:
  "foreign coach measurement_11 (anthropometrics clinic)"
  "foreign coach record_13 (performances clinic)"
  "foreign coach report_17 (reports clinic)"
  "foreign_patient coach bea (users clinic)"
  by (simp_all add: foreign_def foreign_patient_def clinic_collections clinic_keys)

lemma coach_lists:
  "anthropometric_list demo_env coach None None None None None clinic =
     Success 200 \<lparr>l_data = [measurement_10], l_total = 1, l_page = 1, l_limit = 10, l_pages = Some 1\<rparr>"
  "performance_list demo_env coach (Some 4) None None None None None clinic =
     Success 200 \<lparr>l_data = [], l_total = 0, l_page = 1, l_limit = 10, l_pages = Some 0\<rparr>"
  "report_list demo_env coach None None None None None None clinic =
     Success 200 \<lparr>l_data = [report_16], l_total = 1, l_page = 1, l_limit = 10, l_pages = Some 1\<rparr>"
  "patient_list demo_env coach None None None None None None None clinic =
     Success 200 \<lparr>l_data = [getPublicProfile ana], l_total = 1, l_page = 1, l_limit = 10, l_pages = Some 1\<rparr>"
  by (simp_all add: anthropometric_list_def performance_list_def report_list_def patient_list_def
        coach_professional clinic_collections clinic_keys Let_def date_range_def truthy_def
        find_sorted_page_def page_of_def skip_limit_def pagination_def countDocuments_def find_docs_def
        with_default_def)


text \<open>
  C1, as stated, at two concrete inputs. A professional's update addressed to a
  measurement of another professional, with a body the validators reject, is answered 400,
  not 404. And two databases that differ only in a patient of another professional answer
  the caller's update of an own patient differently, 500 and 200: the unique index on
  \<open>email\<close> refuses the first save.
\<close>

theorem validation_precedes_lookup:
  "is_professional coach
   \<and> measurement_11 \<in> set (anthropometrics clinic) \<and> professionalId measurement_11 \<noteq> u_id coach
   \<and> anthropometric_update demo_env coach (doc_id measurement_11) [Set_weight (- 1)] clinic =
       (Failure 400 (ErrorsArray [(''weight'', ''Invalid value'')]), clinic)
   \<and> bea \<in> set (users clinic) \<and> u_professionalId bea \<noteq> Some (u_id coach)
   \<and> without_others coach clinic_without_bea = without_others coach clinic
   \<and> fst (patient_update demo_env coach 2 [(''email'', ''bea@example.com'')] clinic) =
       internal_error ''Error updating patient''
   \<and> fst (patient_update demo_env coach 2 [(''email'', ''bea@example.com'')] clinic_without_bea) =
       Success 200 (getPublicProfile (ana\<lparr>u_email := Some ''bea@example.com''\<rparr>))"
proof -
  let ?body = "[(''email'', ''bea@example.com'')]"
  let ?moved = "ana\<lparr>u_email := Some ''bea@example.com''\<rparr>"
  have v: "patient_update_validators demo_env ?body = []" by code_simp
  have f: "findOne demo_env (owned_patient coach 2) (users clinic) = Some ana" by code_simp
  have f': "findOne demo_env (owned_patient coach 2) (users clinic_without_bea) = Some ana"
    by code_simp
  have a: "patient_assign ana (''email'', ''bea@example.com'') = ?moved" by code_simp
  have s: "save_user ?moved clinic = Inl MongoError" by code_simp
  have s': "save_user ?moved clinic_without_bea =
              Inr (?moved, clinic_without_bea\<lparr>users := [coach, ?moved, rival]\<rparr>)" by code_simp
  have pu: "patient_update demo_env coach 2 ?body clinic = (internal_error ''Error updating patient'', clinic)"
    by (simp add: patient_update_def v f a s)
  have pu': "patient_update demo_env coach 2 ?body clinic_without_bea =
               (Success 200 (getPublicProfile ?moved), clinic_without_bea\<lparr>users := [coach, ?moved, rival]\<rparr>)"
    by (simp add: patient_update_def v f' a s')
  have w: "without_others coach clinic_without_bea = without_others coach clinic"
    by (simp add: without_others_def clinic_without_bea_def clinic_collections clinic_keys)
  show ?thesis
    by (simp add: coach_professional clinic_collections clinic_keys anthropometric_update_def pu pu' w)
qed

text \<open>
  C1, amended. For a professional caller: every list and every get by id answers as it
  would on the database without the records of other professionals, and a list returns
  only records stamped with the caller's id (for patients: assigned to the caller). A get,
  update, delete or share addressed to the id of a stored record of another professional
  answers 404 \<open>NOT_FOUND\<close>, never 403, and changes nothing; an update whose body the
  route's validators reject is answered 400 before the lookup. The responses of the
  measurement and performance updates and of the deletes are also what they would be
  without the other professionals' records. (The update of a patient and the share of a
  report are left out of the last part: their save can be refused by a unique index.)
\<close>

theorem cross_professional_isolation:
  assumes "is_professional caller"
  shows
    "(anthropometric_list E caller athleteId startDate endDate page limit d =
        anthropometric_list E caller athleteId startDate endDate page limit (without_others caller d)
      \<and> performance_list E caller user_id startDate endDate sport page limit d =
        performance_list E caller user_id startDate endDate sport page limit (without_others caller d)
      \<and> report_list E caller kind format startDate endDate page limit d =
        report_list E caller kind format startDate endDate page limit (without_others caller d)
      \<and> patient_list E caller name gender age sport position page limit d =
        patient_list E caller name gender age sport position page limit (without_others caller d)
      \<and> anthropometric_get E caller i d = anthropometric_get E caller i (without_others caller d)
      \<and> performance_get E caller i d = performance_get E caller i (without_others caller d)
      \<and> report_get E caller i d = report_get E caller i (without_others caller d)
      \<and> patient_get E caller i d = patient_get E caller i (without_others caller d))
   \<and> ((anthropometric_list E caller athleteId startDate endDate page limit d = Success st1 measurements \<longrightarrow>
         list_all (\<lambda>m. professionalId m = u_id caller) (l_data measurements))
      \<and> (performance_list E caller user_id startDate endDate sport page limit d = Success st2 records \<longrightarrow>
         list_all (\<lambda>m. professionalId m = u_id caller) (l_data records))
      \<and> (report_list E caller kind format startDate endDate page limit d = Success st3 listed \<longrightarrow>
         list_all (\<lambda>r. professionalId r = u_id caller) (l_data listed))
      \<and> (patient_list E caller name gender age sport position page limit d = Success st4 patients \<longrightarrow>
         list_all (\<lambda>u. u_professionalId u = Some (u_id caller)) (l_data patients)))
   \<and> (foreign caller m (anthropometrics d) \<longrightarrow>
        anthropometric_get E caller (doc_id m) d = not_found ''Measurement not found''
        \<and> anthropometric_update E caller (doc_id m) a_body d =
            (if concat (map anthropometric_validator a_body) \<noteq> []
             then Failure 400 (ErrorsArray (concat (map anthropometric_validator a_body)))
             else not_found ''Measurement not found'', d)
        \<and> anthropometric_delete E caller (doc_id m) d = (not_found ''Measurement not found'', d))
   \<and> (foreign caller p (performances d) \<longrightarrow>
        performance_get E caller (doc_id p) d = not_found ''Performance record not found''
        \<and> performance_update E caller (doc_id p) p_body d =
            (if concat (map performance_validator p_body) \<noteq> []
             then Failure 400 (ErrorsArray (concat (map performance_validator p_body)))
             else not_found ''Performance record not found'', d)
        \<and> performance_delete E caller (doc_id p) d = (not_found ''Performance record not found'', d))
   \<and> (foreign caller r (reports d) \<longrightarrow>
        report_get E caller (doc_id r) d = not_found ''Report not found''
        \<and> report_share E random caller (doc_id r) d = (not_found ''Report not found'', d)
        \<and> report_delete E caller (doc_id r) d = (not_found ''Report not found'', d))
   \<and> (foreign_patient caller u (users d) \<longrightarrow>
        patient_get E caller (u_id u) d = not_found ''Patient not found''
        \<and> patient_update E caller (u_id u) u_body d =
            (if patient_update_validators E u_body \<noteq> []
             then Failure 400 (ErrorsArray (patient_update_validators E u_body))
             else not_found ''Patient not found or not assigned to you'', d)
        \<and> patient_delete E caller (u_id u) d = (not_found ''Patient not found or not assigned to you'', d))
   \<and> (fst (anthropometric_update E caller i a_body d) =
        fst (anthropometric_update E caller i a_body (without_others caller d))
      \<and> fst (anthropometric_delete E caller i d) = fst (anthropometric_delete E caller i (without_others caller d))
      \<and> fst (performance_update E caller i p_body d) =
        fst (performance_update E caller i p_body (without_others caller d))
      \<and> fst (performance_delete E caller i d) = fst (performance_delete E caller i (without_others caller d))
      \<and> fst (report_delete E caller i d) = fst (report_delete E caller i (without_others caller d))
      \<and> fst (patient_delete E caller i d) = fst (patient_delete E caller i (without_others caller d)))"
proof -
  note pro = assms
  have reads:
    "anthropometric_list E caller athleteId startDate endDate page limit d =
        anthropometric_list E caller athleteId startDate endDate page limit (without_others caller d)
      \<and> performance_list E caller user_id startDate endDate sport page limit d =
        performance_list E caller user_id startDate endDate sport page limit (without_others caller d)
      \<and> report_list E caller kind format startDate endDate page limit d =
        report_list E caller kind format startDate endDate page limit (without_others caller d)
      \<and> patient_list E caller name gender age sport position page limit d =
        patient_list E caller name gender age sport position page limit (without_others caller d)
      \<and> anthropometric_get E caller i d = anthropometric_get E caller i (without_others caller d)
      \<and> performance_get E caller i d = performance_get E caller i (without_others caller d)
      \<and> report_get E caller i d = report_get E caller i (without_others caller d)
      \<and> patient_get E caller i d = patient_get E caller i (without_others caller d)"
    by (intro conjI anthropometric_list_isolated(1) performance_list_isolated(1) report_list_isolated(1)
          patient_list_isolated(1) anthropometric_get_isolated performance_get_isolated
          report_get_isolated patient_get_isolated pro)
  have lists:
    "(anthropometric_list E caller athleteId startDate endDate page limit d = Success st1 measurements \<longrightarrow>
         list_all (\<lambda>m. professionalId m = u_id caller) (l_data measurements))
      \<and> (performance_list E caller user_id startDate endDate sport page limit d = Success st2 records \<longrightarrow>
         list_all (\<lambda>m. professionalId m = u_id caller) (l_data records))
      \<and> (report_list E caller kind format startDate endDate page limit d = Success st3 listed \<longrightarrow>
         list_all (\<lambda>r. professionalId r = u_id caller) (l_data listed))
      \<and> (patient_list E caller name gender age sport position page limit d = Success st4 patients \<longrightarrow>
         list_all (\<lambda>u. u_professionalId u = Some (u_id caller)) (l_data patients))"
    by (intro conjI impI)
       (erule anthropometric_list_isolated(2)[OF pro], erule performance_list_isolated(2)[OF pro],
        erule report_list_isolated(2)[OF pro], erule patient_list_isolated(2))
  have g3:
    "foreign caller m (anthropometrics d) \<longrightarrow>
        anthropometric_get E caller (doc_id m) d = not_found ''Measurement not found''
        \<and> anthropometric_update E caller (doc_id m) a_body d =
            (if concat (map anthropometric_validator a_body) \<noteq> []
             then Failure 400 (ErrorsArray (concat (map anthropometric_validator a_body)))
             else not_found ''Measurement not found'', d)
        \<and> anthropometric_delete E caller (doc_id m) d = (not_found ''Measurement not found'', d)"
    by (intro impI conjI anthropometric_foreign pro)
  have g4:
    "foreign caller p (performances d) \<longrightarrow>
        performance_get E caller (doc_id p) d = not_found ''Performance record not found''
        \<and> performance_update E caller (doc_id p) p_body d =
            (if concat (map performance_validator p_body) \<noteq> []
             then Failure 400 (ErrorsArray (concat (map performance_validator p_body)))
             else not_found ''Performance record not found'', d)
        \<and> performance_delete E caller (doc_id p) d = (not_found ''Performance record not found'', d)"
    by (intro impI conjI performance_foreign pro)
  have g5:
    "foreign caller r (reports d) \<longrightarrow>
        report_get E caller (doc_id r) d = not_found ''Report not found''
        \<and> report_share E random caller (doc_id r) d = (not_found ''Report not found'', d)
        \<and> report_delete E caller (doc_id r) d = (not_found ''Report not found'', d)"
    by (intro impI conjI report_foreign pro)
  have g6:
    "foreign_patient caller u (users d) \<longrightarrow>
        patient_get E caller (u_id u) d = not_found ''Patient not found''
        \<and> patient_update E caller (u_id u) u_body d =
            (if patient_update_validators E u_body \<noteq> []
             then Failure 400 (ErrorsArray (patient_update_validators E u_body))
             else not_found ''Patient not found or not assigned to you'', d)
        \<and> patient_delete E caller (u_id u) d = (not_found ''Patient not found or not assigned to you'', d)"
    by (intro impI conjI patient_foreign)
  have writes:
    "fst (anthropometric_update E caller i a_body d) =
        fst (anthropometric_update E caller i a_body (without_others caller d))
      \<and> fst (anthropometric_delete E caller i d) = fst (anthropometric_delete E caller i (without_others caller d))
      \<and> fst (performance_update E caller i p_body d) =
        fst (performance_update E caller i p_body (without_others caller d))
      \<and> fst (performance_delete E caller i d) = fst (performance_delete E caller i (without_others caller d))
      \<and> fst (report_delete E caller i d) = fst (report_delete E caller i (without_others caller d))
      \<and> fst (patient_delete E caller i d) = fst (patient_delete E caller i (without_others caller d))"
    by (intro conjI write_responses_isolated)
  show ?thesis
    by (rule conjI [OF reads conjI [OF lists conjI [OF g3 conjI [OF g4
          conjI [OF g5 conjI [OF g6 writes]]]]]])
qed

theorem cross_professional_isolation_witness:
  "is_professional coach
   \<and> anthropometric_list demo_env coach None None None None None clinic =
       Success 200 \<lparr>l_data = [measurement_10], l_total = 1, l_page = 1, l_limit = 10, l_pages = Some 1\<rparr>
   \<and> anthropometric_list demo_env coach None None None None None (without_others coach clinic) =
       Success 200 \<lparr>l_data = [measurement_10], l_total = 1, l_page = 1, l_limit = 10, l_pages = Some 1\<rparr>
   \<and> list_all (\<lambda>m. professionalId m = u_id coach) [measurement_10]
   \<and> performance_list demo_env coach (Some 4) None None None None None clinic =
       Success 200 \<lparr>l_data = [], l_total = 0, l_page = 1, l_limit = 10, l_pages = Some 0\<rparr>
   \<and> report_list demo_env coach None None None None None None clinic =
       Success 200 \<lparr>l_data = [report_16], l_total = 1, l_page = 1, l_limit = 10, l_pages = Some 1\<rparr>
   \<and> list_all (\<lambda>r. professionalId r = u_id coach) [report_16]
   \<and> patient_list demo_env coach None None None None None None None clinic =
       Success 200 \<lparr>l_data = [getPublicProfile ana], l_total = 1, l_page = 1, l_limit = 10, l_pages = Some 1\<rparr>
   \<and> list_all (\<lambda>u. u_professionalId u = Some (u_id coach)) [getPublicProfile ana]
   \<and> foreign coach measurement_11 (anthropometrics clinic)
   \<and> anthropometric_get demo_env coach (doc_id measurement_11) clinic = not_found ''Measurement not found''
   \<and> anthropometric_update demo_env coach (doc_id measurement_11) [Set_notes ''seen''] clinic =
       (not_found ''Measurement not found'', clinic)
   \<and> anthropometric_delete demo_env coach (doc_id measurement_11) clinic =
       (not_found ''Measurement not found'', clinic)
   \<and> foreign coach record_13 (performances clinic)
   \<and> performance_get demo_env coach (doc_id record_13) clinic = not_found ''Performance record not found''
   \<and> performance_update demo_env coach (doc_id record_13) [Put_vo2max 60] clinic =
       (not_found ''Performance record not found'', clinic)
   \<and> performance_delete demo_env coach (doc_id record_13) clinic =
       (not_found ''Performance record not found'', clinic)
   \<and> foreign coach report_17 (reports clinic)
   \<and> report_get demo_env coach (doc_id report_17) clinic = not_found ''Report not found''
   \<and> report_share demo_env (''0.4fzyo82mvyr'', ''0.9kq1x7c3d2a'') coach (doc_id report_17) clinic =
       (not_found ''Report not found'', clinic)
   \<and> report_delete demo_env coach (doc_id report_17) clinic = (not_found ''Report not found'', clinic)
   \<and> foreign_patient coach bea (users clinic)
   \<and> patient_get demo_env coach (u_id bea) clinic = not_found ''Patient not found''
   \<and> patient_update demo_env coach (u_id bea) [(''sport'', ''judo'')] clinic =
       (not_found ''Patient not found or not assigned to you'', clinic)
   \<and> patient_delete demo_env coach (u_id bea) clinic =
       (not_found ''Patient not found or not assigned to you'', clinic)"
proof -
  let ?a = "\<lparr>l_data = [measurement_10], l_total = 1, l_page = 1, l_limit = 10, l_pages = Some 1\<rparr>"
  let ?p = "\<lparr>l_data = [] :: performance list, l_total = 0, l_page = 1, l_limit = 10, l_pages = Some 0\<rparr>"
  let ?r = "\<lparr>l_data = [report_16], l_total = 1, l_page = 1, l_limit = 10, l_pages = Some 1\<rparr>"
  let ?u = "\<lparr>l_data = [getPublicProfile ana], l_total = 1, l_page = 1, l_limit = 10, l_pages = Some 1\<rparr>"
  note rules = cross_professional_isolation[where E = demo_env and caller = coach and d = clinic
      and athleteId = None and startDate = None and endDate = None and page = None and limit = None
      and user_id = "Some 4" and sport = None and kind = None and format = None and name = None
      and gender = None and age = None and position = None
      and ?st1.0 = 200 and measurements = ?a and ?st2.0 = 200 and records = ?p
      and ?st3.0 = 200 and listed = ?r and ?st4.0 = 200 and patients = ?u
      and m = measurement_11 and a_body = "[Set_notes ''seen'']"
      and p = record_13 and p_body = "[Put_vo2max 60]"
      and r = report_17 and random = "(''0.4fzyo82mvyr'', ''0.9kq1x7c3d2a'')"
      and u = bea and u_body = "[(''sport'', ''judo'')]", OF coach_professional]
  note reads = rules [THEN conjunct1]
  note lists = rules [THEN conjunct2, THEN conjunct1]
  note g3 = rules [THEN conjunct2, THEN conjunct2, THEN conjunct1, rule_format, OF clinic_foreign(1)]
  note g4 = rules [THEN conjunct2, THEN conjunct2, THEN conjunct2, THEN conjunct1, rule_format,
      OF clinic_foreign(2)]
  note g5 = rules [THEN conjunct2, THEN conjunct2, THEN conjunct2, THEN conjunct2, THEN conjunct1,
      rule_format, OF clinic_foreign(3)]
  note g6 = rules [THEN conjunct2, THEN conjunct2, THEN conjunct2, THEN conjunct2, THEN conjunct2,
      THEN conjunct1, rule_format, OF clinic_foreign(4)]
  have uv: "patient_update_validators demo_env [(''sport'', ''judo'')] = []" by code_simp
  show ?thesis
  proof (intro conjI)
    show "is_professional coach" by (fact coach_professional)
    show "anthropometric_list demo_env coach None None None None None clinic = Success 200 ?a"
      by (fact coach_lists(1))
    show "anthropometric_list demo_env coach None None None None None (without_others coach clinic) =
       Success 200 ?a"
      using reads [THEN conjunct1] coach_lists(1) by simp
    show "list_all (\<lambda>m. professionalId m = u_id coach) [measurement_10]"
      using lists [THEN conjunct1, rule_format, OF coach_lists(1)] by simp
    show "performance_list demo_env coach (Some 4) None None None None None clinic = Success 200 ?p"
      by (fact coach_lists(2))
    show "report_list demo_env coach None None None None None None clinic = Success 200 ?r"
      by (fact coach_lists(3))
    show "list_all (\<lambda>r. professionalId r = u_id coach) [report_16]"
      using lists [THEN conjunct2, THEN conjunct2, THEN conjunct1, rule_format, OF coach_lists(3)] by simp
    show "patient_list demo_env coach None None None None None None None clinic = Success 200 ?u"
      by (fact coach_lists(4))
    show "list_all (\<lambda>u. u_professionalId u = Some (u_id coach)) [getPublicProfile ana]"
      using lists [THEN conjunct2, THEN conjunct2, THEN conjunct2, rule_format, OF coach_lists(4)] by simp
    show "foreign coach measurement_11 (anthropometrics clinic)" by (fact clinic_foreign(1))
    show "anthropometric_get demo_env coach (doc_id measurement_11) clinic = not_found ''Measurement not found''"
      by (rule g3 [THEN conjunct1])
    show "anthropometric_update demo_env coach (doc_id measurement_11) [Set_notes ''seen''] clinic =
       (not_found ''Measurement not found'', clinic)"
      using g3 [THEN conjunct2, THEN conjunct1] by simp
    show "anthropometric_delete demo_env coach (doc_id measurement_11) clinic =
       (not_found ''Measurement not found'', clinic)"
      by (rule g3 [THEN conjunct2, THEN conjunct2])
    show "foreign coach record_13 (performances clinic)" by (fact clinic_foreign(2))
    show "performance_get demo_env coach (doc_id record_13) clinic = not_found ''Performance record not found''"
      by (rule g4 [THEN conjunct1])
    show "performance_update demo_env coach (doc_id record_13) [Put_vo2max 60] clinic =
       (not_found ''Performance record not found'', clinic)"
      using g4 [THEN conjunct2, THEN conjunct1] by simp
    show "performance_delete demo_env coach (doc_id record_13) clinic =
       (not_found ''Performance record not found'', clinic)"
      by (rule g4 [THEN conjunct2, THEN conjunct2])
    show "foreign coach report_17 (reports clinic)" by (fact clinic_foreign(3))
    show "report_get demo_env coach (doc_id report_17) clinic = not_found ''Report not found''"
      by (rule g5 [THEN conjunct1])
    show "report_share demo_env (''0.4fzyo82mvyr'', ''0.9kq1x7c3d2a'') coach (doc_id report_17) clinic =
       (not_found ''Report not found'', clinic)"
      by (rule g5 [THEN conjunct2, THEN conjunct1])
    show "report_delete demo_env coach (doc_id report_17) clinic = (not_found ''Report not found'', clinic)"
      by (rule g5 [THEN conjunct2, THEN conjunct2])
    show "foreign_patient coach bea (users clinic)" by (fact clinic_foreign(4))
    show "patient_get demo_env coach (u_id bea) clinic = not_found ''Patient not found''"
      by (rule g6 [THEN conjunct1])
    show "patient_update demo_env coach (u_id bea) [(''sport'', ''judo'')] clinic =
       (not_found ''Patient not found or not assigned to you'', clinic)"
      using g6 [THEN conjunct2, THEN conjunct1] by (simp add: uv)
    show "patient_delete demo_env coach (u_id bea) clinic =
       (not_found ''Patient not found or not assigned to you'', clinic)"
      by (rule g6 [THEN conjunct2, THEN conjunct2])
  qed
qed

end
